theory Spec2Isabelle
  imports Main
begin

section \<open>Data model (types.ts)\<close>

text \<open>
  The node and edge types of the code graph. The TypeScript literal unions become
  datatypes, optional fields become \<open>option\<close>s. The field \<open>documentation\<close> of a node is
  generated text that no operation below reads; it is left out of the record.
  JavaScript numbers that hold line numbers, counts and scores are integers here.
\<close>

datatype NodeType = Class | Function | Method | Component | Module | Interface | Decorator

datatype Language = Java | TypeScript | JavaScript | Python

datatype Visibility = Public | Private | Protected

datatype EdgeType = Calls | Extends | Implements | Imports | Uses | Contains

record Parameter =
  pname :: string
  ptype :: string
  optional :: "bool option"
  defaultValue :: "string option"

record CodeNode =
  nid :: string
  label :: string
  ntype :: NodeType
  language :: Language
  filePath :: string
  startLine :: nat
  endLine :: nat
  visibility :: "Visibility option"
  isAsync :: "bool option"
  isStatic :: "bool option"
  isEntryPoint :: "bool option"
  isPrimaryEntry :: "bool option"
  parameters :: "Parameter list option"
  returnType :: "string option"
  props :: "string list option"
  hooks :: "string list option"
  sourceCode :: string

record CodeEdge =
  efrom :: string
  eto :: string
  etype :: EdgeType
  elabel :: "string option"

record GraphMetadata =
  totalFiles :: nat
  totalNodes :: nat
  languages :: "Language list"
  rootPath :: string
  analyzedAt :: nat
  entryPoints :: "string list option"

record CodeGraph =
  nodes :: "CodeNode list"
  edges :: "CodeEdge list"
  metadata :: GraphMetadata

text \<open>The text a template literal prints for an edge type.\<close>

fun edgeTypeText :: "EdgeType \<Rightarrow> string" where
  "edgeTypeText Calls = ''calls''"
| "edgeTypeText Extends = ''extends''"
| "edgeTypeText Implements = ''implements''"
| "edgeTypeText Imports = ''imports''"
| "edgeTypeText Uses = ''uses''"
| "edgeTypeText Contains = ''contains''"

section \<open>Strings\<close>

text \<open>
  Strings are byte lists. The patterns below only name ASCII letters, so lower-casing is
  modelled on the letters \<open>A\<close> to \<open>Z\<close>; every other byte is left as it is.
\<close>

definition lowerChar :: "char \<Rightarrow> char" where
  "lowerChar c =
     (case map_of (zip ''ABCDEFGHIJKLMNOPQRSTUVWXYZ'' ''abcdefghijklmnopqrstuvwxyz'') c of
        Some l \<Rightarrow> l
      | None \<Rightarrow> c)"

definition toLowerCase :: "string \<Rightarrow> string" where
  "toLowerCase s = map lowerChar s"

fun startsWith :: "string \<Rightarrow> string \<Rightarrow> bool" where
  "startsWith s [] = True"
| "startsWith [] (p # ps) = False"
| "startsWith (c # cs) (p # ps) = (c = p \<and> startsWith cs ps)"

definition endsWith :: "string \<Rightarrow> string \<Rightarrow> bool" where
  "endsWith s suf = startsWith (rev s) (rev suf)"

fun includesText :: "string \<Rightarrow> string \<Rightarrow> bool" where
  "includesText [] sub = (sub = [])"
| "includesText (c # cs) sub = (startsWith (c # cs) sub \<or> includesText cs sub)"

text \<open>The two path separators, backslash and slash.\<close>

definition separators :: "char list" where
  "separators = [CHR 0x5C, CHR ''/'']"

subsection \<open>Text helpers of the parsers\<close>

text \<open>\<open>content.split('\n')\<close>, \<open>Array.join\<close>, \<open>Array.slice\<close> and the decimal text of a number.\<close>

fun splitOn :: "char \<Rightarrow> string \<Rightarrow> string list" where
  "splitOn c [] = [] # []"
| "splitOn c (x # xs) =
     (if x = c then [] # splitOn c xs
      else (case splitOn c xs of [] \<Rightarrow> [x] # [] | l # ls \<Rightarrow> (x # l) # ls))"

definition splitLines :: "string \<Rightarrow> string list" where
  "splitLines content = splitOn CHR 0x0A content"

fun joinWith :: "string \<Rightarrow> string list \<Rightarrow> string" where
  "joinWith sep [] = []"
| "joinWith sep [x] = x"
| "joinWith sep (x # y # ys) = x @ sep @ joinWith sep (y # ys)"

definition sliceLines :: "string list \<Rightarrow> nat \<Rightarrow> nat \<Rightarrow> string list" where
  "sliceLines lines start stop = take (stop - start) (drop start lines)"

definition sourceOf :: "string list \<Rightarrow> nat \<Rightarrow> nat \<Rightarrow> string" where
  "sourceOf lines start stop = joinWith [CHR 0x0A] (sliceLines lines start (stop + 1))"

definition digitChar :: "nat \<Rightarrow> char" where
  "digitChar d = ''0123456789'' ! d"

fun showNat :: "nat \<Rightarrow> string" where
  "showNat n = (if n < 10 then [digitChar n] else showNat (n div 10) @ [digitChar (n mod 10)])"

declare showNat.simps [simp del]

text \<open>
  \<open>fsPath.split(/[\\/]/).pop() || 'module'\<close>: the text after the last separator, or
  \<open>module\<close> when that text is empty; then one trailing extension is removed.
\<close>

definition fileNameOf :: "string \<Rightarrow> string" where
  "fileNameOf fsPath =
     (let tail = rev (takeWhile (\<lambda>c. c \<notin> set separators) (rev fsPath))
      in if tail = [] then ''module'' else tail)"

fun stripFirstSuffix :: "string list \<Rightarrow> string \<Rightarrow> string" where
  "stripFirstSuffix [] s = s"
| "stripFirstSuffix (suf # sufs) s =
     (if endsWith s suf then take (length s - length suf) s else stripFirstSuffix sufs s)"

section \<open>Graph assembly (GraphBuilder)\<close>

text \<open>
  A JavaScript \<open>Set\<close> or \<open>Map\<close> iterates in insertion order; both are lists here.
  \<open>setAdd\<close> is \<open>Set.add\<close>: nothing changes when the element is already there.
\<close>

definition setAdd :: "'a \<Rightarrow> 'a list \<Rightarrow> 'a list" where
  "setAdd x s = (if x \<in> set s then s else s @ [x])"

fun setOf :: "'a list \<Rightarrow> 'a list \<Rightarrow> 'a list" where
  "setOf [] s = s"
| "setOf (x # xs) s = setOf xs (setAdd x s)"

text \<open>
  \<open>deduplicateNodes\<close>: a \<open>Map\<close> from id to node, filled by a loop that skips an id it
  has; the result is the map's values, in insertion order.
\<close>

fun deduplicateNodes_loop :: "CodeNode list \<Rightarrow> (string \<times> CodeNode) list \<Rightarrow> (string \<times> CodeNode) list" where
  "deduplicateNodes_loop [] seen = seen"
| "deduplicateNodes_loop (n # ns) seen =
     deduplicateNodes_loop ns
       (if map_of seen (nid n) = None then seen @ [(nid n, n)] else seen)"

definition deduplicateNodes :: "CodeNode list \<Rightarrow> CodeNode list" where
  "deduplicateNodes ns = map snd (deduplicateNodes_loop ns [])"

text \<open>
  \<open>deduplicateEdges\<close>: a filter whose predicate keeps a set of the keys seen so far.
  The key is the string \<open>from-to-type\<close>.
\<close>

definition edgeKey :: "CodeEdge \<Rightarrow> string" where
  "edgeKey e = efrom e @ ''-'' @ eto e @ ''-'' @ edgeTypeText (etype e)"

fun deduplicateEdges_loop :: "CodeEdge list \<Rightarrow> string list \<Rightarrow> CodeEdge list" where
  "deduplicateEdges_loop [] seen = []"
| "deduplicateEdges_loop (e # es) seen =
     (if edgeKey e \<in> set seen then deduplicateEdges_loop es seen
      else e # deduplicateEdges_loop es (setAdd (edgeKey e) seen))"

definition deduplicateEdges :: "CodeEdge list \<Rightarrow> CodeEdge list" where
  "deduplicateEdges es = deduplicateEdges_loop es []"

text \<open>
  \<open>buildFromEntryPoints\<close>. The clock read by \<open>new Date()\<close> is the parameter \<open>now\<close>.
\<close>

definition buildFromEntryPoints ::
  "nat \<Rightarrow> CodeNode list \<Rightarrow> CodeEdge list \<Rightarrow> string \<Rightarrow> string list \<Rightarrow> CodeGraph" where
  "buildFromEntryPoints now ns es root entryPointFiles =
     (let uniqueNodes = deduplicateNodes ns;
          uniqueEdges = deduplicateEdges es
      in \<lparr> nodes = uniqueNodes,
           edges = uniqueEdges,
           metadata = \<lparr> totalFiles = length (setOf (map filePath uniqueNodes) []),
                        totalNodes = length uniqueNodes,
                        languages = setOf (map language uniqueNodes) [],
                        rootPath = root,
                        analyzedAt = now,
                        entryPoints = Some entryPointFiles \<rparr> \<rparr>)"

text \<open>
  \<open>getDependencies\<close> and \<open>getDependents\<close>: \<open>Array.find\<close> is \<open>List.find\<close>, a missing node
  gives the empty list.
\<close>

definition getDependencies :: "CodeGraph \<Rightarrow> string \<Rightarrow> CodeNode list" where
  "getDependencies graph nodeId =
     (case List.find (\<lambda>n. nid n = nodeId) (nodes graph) of
        None \<Rightarrow> []
      | Some node \<Rightarrow>
          (let targetFilePaths = map eto (filter (\<lambda>e. efrom e = filePath node) (edges graph))
           in filter (\<lambda>n. filePath n \<in> set targetFilePaths) (nodes graph)))"

definition getDependents :: "CodeGraph \<Rightarrow> string \<Rightarrow> CodeNode list" where
  "getDependents graph nodeId =
     (case List.find (\<lambda>n. nid n = nodeId) (nodes graph) of
        None \<Rightarrow> []
      | Some node \<Rightarrow>
          (let sourceFilePaths = map efrom (filter (\<lambda>e. eto e = filePath node) (edges graph))
           in filter (\<lambda>n. filePath n \<in> set sourceFilePaths) (nodes graph)))"

text \<open>
  \<open>filterByDepth\<close>. The closure \<open>traverse\<close> mutates three collections; they are the
  traversal state, passed in and returned. \<open>forEach\<close> over the outgoing edges is a
  \<open>fold\<close> in edge order. Every recursive call is one level deeper and is made only
  from a level that is at most \<open>maxDepth\<close>, which is the termination argument.
  \<open>maxDepth\<close> ranges over the integers (a fractional bound acts as its floor; an
  infinite bound is outside the model).
\<close>

record TraverseState =
  visited :: "string list"
  nodesToInclude :: "string list"
  edgesToInclude :: "CodeEdge list"

function traverse :: "CodeEdge list \<Rightarrow> int \<Rightarrow> string \<Rightarrow> int \<Rightarrow> TraverseState \<Rightarrow> TraverseState" where
  "traverse es maxDepth nodeId depth st =
     (if depth > maxDepth \<or> nodeId \<in> set (visited st) then st
      else
        fold (\<lambda>edge s.
                traverse es maxDepth (eto edge) (depth + 1)
                  (s\<lparr> edgesToInclude := edgesToInclude s @ [edge] \<rparr>))
             (filter (\<lambda>e. efrom e = nodeId) es)
             (st\<lparr> visited := setAdd nodeId (visited st),
                  nodesToInclude := setAdd nodeId (nodesToInclude st) \<rparr>))"
  by pat_completeness auto
termination
  by (relation "measure (\<lambda>(es, maxDepth, nodeId, depth, st). nat (maxDepth + 1 - depth))") auto

definition traverseFrom :: "CodeGraph \<Rightarrow> string \<Rightarrow> int \<Rightarrow> TraverseState" where
  "traverseFrom graph rootNodeId maxDepth =
     traverse (edges graph) maxDepth rootNodeId 0
       \<lparr> visited = [], nodesToInclude = [], edgesToInclude = [] \<rparr>"

definition filterByDepth :: "CodeGraph \<Rightarrow> string \<Rightarrow> int \<Rightarrow> CodeGraph" where
  "filterByDepth graph rootNodeId maxDepth =
     (let st = traverseFrom graph rootNodeId maxDepth
      in \<lparr> nodes = filter (\<lambda>n. nid n \<in> set (nodesToInclude st)) (nodes graph),
           edges = edgesToInclude st,
           metadata = (metadata graph)\<lparr> totalNodes := length (nodesToInclude st) \<rparr> \<rparr>)"

section \<open>Entry-point detection (EntryPointDetector)\<close>

datatype EntryType = EntryMain | EntryIndex | EntryApp | EntryConfig

record EntryPoint =
  ep_filePath :: string
  ep_type :: EntryType
  score :: int
  ep_isPrimaryEntry :: "bool option"

text \<open>
  The regular expressions of \<open>markPrimaryEntryPoint\<close>. Each is anchored at the end of
  the path and carries the flag \<open>i\<close>, so it is a test on the end of the lower-cased
  path. The React patterns accept either separator; the Python patterns name the slash
  alone.
\<close>

definition scriptExtensions :: "string list" where
  "scriptExtensions = [''tsx'', ''ts'', ''jsx'', ''js'']"

text \<open>A separator, \<open>name\<close>, a dot and one of \<open>tsx\<close>, \<open>ts\<close>, \<open>jsx\<close>, \<open>js\<close>, at the end.\<close>

definition matchesScript :: "string \<Rightarrow> string \<Rightarrow> bool" where
  "matchesScript name p =
     list_ex (\<lambda>sep. list_ex (\<lambda>ext. endsWith (toLowerCase p) (sep # name @ ''.'' @ ext))
                scriptExtensions) separators"

text \<open>The same below a directory \<open>src\<close>: a separator, \<open>src\<close>, a separator, the file.\<close>

definition matchesSrcScript :: "string \<Rightarrow> string \<Rightarrow> bool" where
  "matchesSrcScript name p =
     list_ex (\<lambda>sep1. list_ex (\<lambda>sep2. list_ex (\<lambda>ext.
                endsWith (toLowerCase p) (sep1 # ''src'' @ sep2 # name @ ''.'' @ ext))
                scriptExtensions) separators) separators"

definition reactPrimaryPatterns :: "(string \<Rightarrow> bool) list" where
  "reactPrimaryPatterns =
     [matchesSrcScript ''index'', matchesSrcScript ''main'', matchesScript ''index'', matchesScript ''main'']"

definition pythonPrimaryPatterns :: "(string \<Rightarrow> bool) list" where
  "pythonPrimaryPatterns =
     [\<lambda>p. endsWith (toLowerCase p) ''__main__.py'',
      \<lambda>p. endsWith (toLowerCase p) ''/main.py'',
      \<lambda>p. endsWith (toLowerCase p) ''/app.py'',
      \<lambda>p. endsWith (toLowerCase p) ''/manage.py'',
      \<lambda>p. endsWith (toLowerCase p) ''/run.py'',
      \<lambda>p. endsWith (toLowerCase p) ''/wsgi.py'',
      \<lambda>p. endsWith (toLowerCase p) ''/asgi.py'']"

text \<open>
  \<open>Array.find\<close> returns the first matching object, which the code then mutates in
  place; the model finds its index and updates the list there.
\<close>

fun findIndex :: "('a \<Rightarrow> bool) \<Rightarrow> 'a list \<Rightarrow> nat option" where
  "findIndex P [] = None"
| "findIndex P (x # xs) = (if P x then Some 0 else map_option Suc (findIndex P xs))"

definition markAt :: "nat \<Rightarrow> int \<Rightarrow> EntryPoint list \<Rightarrow> EntryPoint list" where
  "markAt i boost eps =
     eps[i := (eps ! i)\<lparr> score := score (eps ! i) + boost, ep_isPrimaryEntry := Some True \<rparr>]"

text \<open>The loop over a pattern list: the first pattern that some candidate matches decides.\<close>

fun markByPatterns :: "(string \<Rightarrow> bool) list \<Rightarrow> EntryPoint list \<Rightarrow> EntryPoint list option" where
  "markByPatterns [] eps = None"
| "markByPatterns (pattern # rest) eps =
     (case findIndex (\<lambda>ep. pattern (ep_filePath ep)) eps of
        Some i \<Rightarrow> Some (markAt i 100 eps)
      | None \<Rightarrow> markByPatterns rest eps)"

definition markPrimaryEntryPoint :: "EntryPoint list \<Rightarrow> EntryPoint list" where
  "markPrimaryEntryPoint entries =
     (case markByPatterns reactPrimaryPatterns entries of
        Some marked \<Rightarrow> marked
      | None \<Rightarrow>
         (case findIndex (\<lambda>ep. ep_type ep = EntryMain \<and> endsWith (ep_filePath ep) ''.java'') entries of
            Some i \<Rightarrow> markAt i 100 entries
          | None \<Rightarrow>
             (case markByPatterns pythonPrimaryPatterns entries of
                Some marked \<Rightarrow> marked
              | None \<Rightarrow>
                 (if length entries > 0 then markAt 0 0 entries else entries))))"

text \<open>
  The tail of \<open>detectEntryPoints\<close>, after the workspace has been searched: deduplicate by
  path, sort by score, mark the primary entry, sort the primary entry to the front, keep
  ten. \<open>Array.sort\<close> is stable; \<open>sortBy\<close> is the stable insertion sort for a comparator.
\<close>

fun deduplicateEntryPoints_loop :: "EntryPoint list \<Rightarrow> string list \<Rightarrow> EntryPoint list" where
  "deduplicateEntryPoints_loop [] seen = []"
| "deduplicateEntryPoints_loop (ep # eps) seen =
     (if ep_filePath ep \<in> set seen then deduplicateEntryPoints_loop eps seen
      else ep # deduplicateEntryPoints_loop eps (setAdd (ep_filePath ep) seen))"

definition deduplicateEntryPoints :: "EntryPoint list \<Rightarrow> EntryPoint list" where
  "deduplicateEntryPoints eps = deduplicateEntryPoints_loop eps []"

fun insertBy :: "('a \<Rightarrow> 'a \<Rightarrow> int) \<Rightarrow> 'a \<Rightarrow> 'a list \<Rightarrow> 'a list" where
  "insertBy cmp x [] = [x]"
| "insertBy cmp x (y # ys) = (if cmp x y \<le> 0 then x # y # ys else y # insertBy cmp x ys)"

definition sortBy :: "('a \<Rightarrow> 'a \<Rightarrow> int) \<Rightarrow> 'a list \<Rightarrow> 'a list" where
  "sortBy cmp xs = foldr (insertBy cmp) xs []"

definition byScore :: "EntryPoint \<Rightarrow> EntryPoint \<Rightarrow> int" where
  "byScore a b = score b - score a"

definition isPrimary :: "EntryPoint \<Rightarrow> bool" where
  "isPrimary ep = (ep_isPrimaryEntry ep = Some True)"

definition primaryFirst :: "EntryPoint \<Rightarrow> EntryPoint \<Rightarrow> int" where
  "primaryFirst a b =
     (if isPrimary a \<and> \<not> isPrimary b then - 1
      else if \<not> isPrimary a \<and> isPrimary b then 1
      else score b - score a)"

definition rankEntryPoints :: "EntryPoint list \<Rightarrow> EntryPoint list" where
  "rankEntryPoints entries =
     take 10 (sortBy primaryFirst (markPrimaryEntryPoint (sortBy byScore (deduplicateEntryPoints entries))))"

section \<open>Import resolution (ImportAnalyzer)\<close>

text \<open>
  \<open>resolveImportPath\<close>. The file system is read through \<open>fileExists\<close> (a \<open>stat\<close> that
  succeeds, for a file or a directory); \<open>dirname\<close> and \<open>resolve\<close> are the functions of
  Node's path module. All three are parameters. The parameter \<open>workspaceRoot\<close> is not
  read by the source.
\<close>

definition extensions :: "string list" where
  "extensions = [''.ts'', ''.tsx'', ''.js'', ''.jsx'', ''.java'',
                 ''/index.ts'', ''/index.tsx'', ''/index.js'', ''/index.jsx'']"

fun tryExtensions :: "(string \<Rightarrow> bool) \<Rightarrow> string \<Rightarrow> string list \<Rightarrow> string option" where
  "tryExtensions fileExists resolvedPath [] = None"
| "tryExtensions fileExists resolvedPath (ext # exts) =
     (if fileExists (resolvedPath @ ext) then Some (resolvedPath @ ext)
      else tryExtensions fileExists resolvedPath exts)"

definition resolveImportPath ::
  "(string \<Rightarrow> bool) \<Rightarrow> (string \<Rightarrow> string) \<Rightarrow> (string \<Rightarrow> string \<Rightarrow> string)
     \<Rightarrow> string \<Rightarrow> string \<Rightarrow> string \<Rightarrow> string option" where
  "resolveImportPath fileExists dirname resolve sourceFile importSource workspaceRoot =
     (if \<not> startsWith importSource ''.'' \<and> \<not> startsWith importSource ''/'' then None
      else
        (let sourceDir = dirname sourceFile;
             resolvedPath = resolve sourceDir importSource
         in case tryExtensions fileExists resolvedPath extensions of
              Some testPath \<Rightarrow> Some testPath
            | None \<Rightarrow> if fileExists resolvedPath then Some resolvedPath else None))"

text \<open>
  The two functions of Node's POSIX path module, for running the resolver on examples.
  \<open>path.dirname\<close> scans the path from its end down to index 1: it passes the trailing
  slashes, then the last name, and cuts the path at the slash before that name; with no
  such slash the result is \<open>/\<close> for a path that starts with a slash and \<open>.\<close> otherwise,
  and a cut at index 1 of a rooted path gives \<open>//\<close>. \<open>path.resolve\<close> of a directory and
  an import joins the two (an import that starts with a slash stands alone), walks the
  segments, dropping empty ones and \<open>.\<close> and stepping up at \<open>..\<close>, and puts a slash in
  front; the working directory, which Node prepends to a relative directory, is the
  root \<open>/\<close> here.
\<close>

definition posixDirname :: "string \<Rightarrow> string" where
  "posixDirname p =
     (case p of
        [] \<Rightarrow> ''.''
      | first # rest \<Rightarrow>
          (let hasRoot = (first = CHR ''/'');
               afterTrailing = dropWhile (\<lambda>c. c = CHR ''/'') (rev rest);
               fromSlash = dropWhile (\<lambda>c. c \<noteq> CHR ''/'') afterTrailing
           in case fromSlash of
                [] \<Rightarrow> if hasRoot then ''/'' else ''.''
              | slash # front \<Rightarrow>
                  if hasRoot \<and> front = [] then ''//'' else first # rev front))"

fun walkSegments :: "string list \<Rightarrow> string list \<Rightarrow> string list" where
  "walkSegments [] acc = acc"
| "walkSegments (seg # segs) acc =
     (if seg = [] \<or> seg = ''.'' then walkSegments segs acc
      else if seg = ''..'' then walkSegments segs (butlast acc)
      else walkSegments segs (acc @ [seg]))"

definition posixResolve :: "string \<Rightarrow> string \<Rightarrow> string" where
  "posixResolve dir importSource =
     (let segments = walkSegments
            (splitOn CHR ''/'' (if startsWith importSource ''/'' then importSource
                                else dir @ ''/'' @ importSource)) []
      in if segments = [] then ''/'' else concat (map (\<lambda>seg. CHR ''/'' # seg) segments))"

section \<open>Language parsers\<close>

text \<open>
  A parser returns its nodes and edges. A JavaScript call can throw; a thrown value is
  an \<open>exn\<close>, and a computation that can throw has a result of type \<open>exn + 'a\<close>.
\<close>

datatype exn = Thrown string

record ParseResult =
  pnodes :: "CodeNode list"
  pedges :: "CodeEdge list"

definition emptyResult :: ParseResult where
  "emptyResult = \<lparr> pnodes = [], pedges = [] \<rparr>"

text \<open>
  \<open>try { ... return result } catch (error) { log; return { nodes: [], edges: [] } }\<close>:
  whatever the body throws is caught and replaced by the empty result.
\<close>

definition tryCatch :: "exn + ParseResult \<Rightarrow> exn + ParseResult" where
  "tryCatch body = (case body of Inl error \<Rightarrow> Inr emptyResult | Inr result \<Rightarrow> Inr result)"

subsection \<open>Java\<close>

record JavaClass =
  jc_name :: string
  jc_startLine :: nat
  jc_endLine :: nat
  jc_visibility :: Visibility
  jc_isAbstract :: bool
  jc_isFinal :: bool
  jc_isStatic :: bool
  jc_extendsClass :: "string option"
  jc_implementsInterfaces :: "string list"
  jc_annotations :: "string list"

record JavaMethod =
  jm_name :: string
  jm_startLine :: nat
  jm_endLine :: nat
  jm_visibility :: Visibility
  jm_isAbstract :: bool
  jm_isFinal :: bool
  jm_isStatic :: bool
  jm_isSynchronized :: bool
  jm_returnType :: string
  jm_parameters :: "Parameter list"
  jm_annotations :: "string list"
  jm_className :: string

record JavaInterface =
  ji_name :: string
  ji_startLine :: nat
  ji_endLine :: nat
  ji_visibility :: Visibility
  ji_extendsInterfaces :: "string list"
  ji_annotations :: "string list"

text \<open>
  The line scanners of the Java parser (\<open>parseClasses\<close>, \<open>parseMethods\<close>,
  \<open>parseInterfaces\<close>, and the import pattern of \<open>extractImports\<close>, which yields for each
  import line whether it is static and its path) are driven by regular expressions. They
  are parameters of the model: \<open>parse\<close> is verified for whatever they return or throw.
\<close>

record JavaScanner =
  js_parseClasses :: "string list \<Rightarrow> exn + JavaClass list"
  js_parseMethods :: "string list \<Rightarrow> nat \<Rightarrow> nat \<Rightarrow> string \<Rightarrow> exn + JavaMethod list"
  js_parseInterfaces :: "string list \<Rightarrow> exn + JavaInterface list"
  js_importLines :: "string list \<Rightarrow> exn + (bool \<times> string) list"

definition blankNode :: CodeNode where
  "blankNode = \<lparr> nid = [], label = [], ntype = Module, language = Java, filePath = [],
     startLine = 0, endLine = 0, visibility = None, isAsync = None, isStatic = None,
     isEntryPoint = None, isPrimaryEntry = None, parameters = None, returnType = None,
     props = None, hooks = None, sourceCode = [] \<rparr>"

definition javaClassNode :: "JavaClass \<Rightarrow> string \<Rightarrow> string list \<Rightarrow> CodeNode" where
  "javaClassNode cls fsPath lines =
     blankNode \<lparr> nid := fsPath @ '':class:'' @ jc_name cls,
       label := jc_name cls, ntype := Class, language := Java, filePath := fsPath,
       startLine := jc_startLine cls + 1, endLine := jc_endLine cls + 1,
       visibility := Some (jc_visibility cls), isStatic := Some (jc_isStatic cls),
       sourceCode := sourceOf lines (jc_startLine cls) (jc_endLine cls) \<rparr>"

definition javaInterfaceNode :: "JavaInterface \<Rightarrow> string \<Rightarrow> string list \<Rightarrow> CodeNode" where
  "javaInterfaceNode iface fsPath lines =
     blankNode \<lparr> nid := fsPath @ '':interface:'' @ ji_name iface,
       label := ji_name iface, ntype := Interface, language := Java, filePath := fsPath,
       startLine := ji_startLine iface + 1, endLine := ji_endLine iface + 1,
       visibility := Some (ji_visibility iface),
       sourceCode := sourceOf lines (ji_startLine iface) (ji_endLine iface) \<rparr>"

definition javaMethodNode :: "JavaMethod \<Rightarrow> string \<Rightarrow> string list \<Rightarrow> CodeNode" where
  "javaMethodNode method fsPath lines =
     blankNode \<lparr> nid := fsPath @ '':method:'' @ jm_className method @ ''.'' @ jm_name method
                      @ '':'' @ showNat (jm_startLine method),
       label := jm_name method, ntype := Method, language := Java, filePath := fsPath,
       startLine := jm_startLine method + 1, endLine := jm_endLine method + 1,
       visibility := Some (jm_visibility method), isAsync := Some (jm_isSynchronized method),
       isStatic := Some (jm_isStatic method), parameters := Some (jm_parameters method),
       returnType := Some (jm_returnType method),
       sourceCode := sourceOf lines (jm_startLine method) (jm_endLine method) \<rparr>"

definition javaModuleNode :: "string \<Rightarrow> string \<Rightarrow> string \<Rightarrow> CodeNode" where
  "javaModuleNode fsPath content name =
     blankNode \<lparr> nid := fsPath @ '':module:'' @ name,
       label := name, ntype := Module, language := Java, filePath := fsPath,
       startLine := 1, endLine := length (splitLines content),
       isEntryPoint := Some True, sourceCode := content \<rparr>"

definition containsEdge :: "string \<Rightarrow> string \<Rightarrow> string \<Rightarrow> CodeEdge" where
  "containsEdge fsPath className methodName =
     \<lparr> efrom = fsPath, eto = fsPath, etype = Contains,
       elabel = Some (className @ '' contains '' @ methodName) \<rparr>"

definition extendsEdge :: "string \<Rightarrow> string \<Rightarrow> CodeEdge" where
  "extendsEdge fsPath target =
     \<lparr> efrom = fsPath, eto = target, etype = Extends, elabel = Some (''extends '' @ target) \<rparr>"

definition implementsEdge :: "string \<Rightarrow> string \<Rightarrow> CodeEdge" where
  "implementsEdge fsPath target =
     \<lparr> efrom = fsPath, eto = target, etype = Implements, elabel = Some (''implements '' @ target) \<rparr>"

definition javaImportEdge :: "string \<Rightarrow> bool \<times> string \<Rightarrow> CodeEdge" where
  "javaImportEdge fsPath imp =
     \<lparr> efrom = fsPath, eto = snd imp, etype = Imports,
       elabel = Some (if fst imp then ''static import'' else ''import'') \<rparr>"

text \<open>
  One round of the loop over the classes, after \<open>parseMethods\<close> has returned: the class
  node, then per method its node and its \<open>contains\<close> edge, then the inheritance edges
  (\<open>if (cls.extendsClass)\<close> is false for \<open>null\<close> and for the empty string).
\<close>

definition javaClassStep :: "string \<Rightarrow> string list \<Rightarrow> JavaClass \<Rightarrow> JavaMethod list \<Rightarrow> ParseResult \<Rightarrow> ParseResult" where
  "javaClassStep fsPath lines cls methods acc =
     \<lparr> pnodes = pnodes acc @ javaClassNode cls fsPath lines
                  # map (\<lambda>method. javaMethodNode method fsPath lines) methods,
       pedges = pedges acc
                  @ map (\<lambda>method. containsEdge fsPath (jc_name cls) (jm_name method)) methods
                  @ (case jc_extendsClass cls of
                       None \<Rightarrow> []
                     | Some super \<Rightarrow> if super = [] then [] else [extendsEdge fsPath super])
                  @ map (implementsEdge fsPath) (jc_implementsInterfaces cls) \<rparr>"

fun javaClassesLoop :: "JavaScanner \<Rightarrow> string \<Rightarrow> string list \<Rightarrow> JavaClass list \<Rightarrow> ParseResult \<Rightarrow> exn + ParseResult" where
  "javaClassesLoop sc fsPath lines [] acc = Inr acc"
| "javaClassesLoop sc fsPath lines (cls # rest) acc =
     (case js_parseMethods sc lines (jc_startLine cls) (jc_endLine cls) (jc_name cls) of
        Inl error \<Rightarrow> Inl error
      | Inr methods \<Rightarrow> javaClassesLoop sc fsPath lines rest (javaClassStep fsPath lines cls methods acc))"

definition javaInterfaceStep :: "string \<Rightarrow> string list \<Rightarrow> JavaInterface \<Rightarrow> ParseResult \<Rightarrow> ParseResult" where
  "javaInterfaceStep fsPath lines iface acc =
     \<lparr> pnodes = pnodes acc @ [javaInterfaceNode iface fsPath lines],
       pedges = pedges acc @ map (extendsEdge fsPath) (ji_extendsInterfaces iface) \<rparr>"

definition moduleFallback :: "CodeNode \<Rightarrow> bool \<Rightarrow> ParseResult \<Rightarrow> ParseResult" where
  "moduleFallback moduleNode wanted acc =
     (if length (pnodes acc) = 0 \<and> wanted then acc \<lparr> pnodes := pnodes acc @ [moduleNode] \<rparr> else acc)"

definition javaParseBody :: "JavaScanner \<Rightarrow> string \<Rightarrow> string \<Rightarrow> bool \<Rightarrow> exn + ParseResult" where
  "javaParseBody sc fsPath content isEntry =
     (let lines = splitLines content in
      case js_parseClasses sc lines of
        Inl error \<Rightarrow> Inl error
      | Inr classes \<Rightarrow>
      (case javaClassesLoop sc fsPath lines classes emptyResult of
        Inl error \<Rightarrow> Inl error
      | Inr afterClasses \<Rightarrow>
      (case js_parseInterfaces sc lines of
        Inl error \<Rightarrow> Inl error
      | Inr interfaces \<Rightarrow>
      (let afterInterfaces = fold (javaInterfaceStep fsPath lines) interfaces afterClasses;
           withModule = moduleFallback
             (javaModuleNode fsPath content (stripFirstSuffix [''.java''] (fileNameOf fsPath)))
             isEntry afterInterfaces
       in case js_importLines sc (splitLines content) of
            Inl error \<Rightarrow> Inl error
          | Inr imports \<Rightarrow>
              Inr (withModule \<lparr> pedges := pedges withModule @ map (javaImportEdge fsPath) imports \<rparr>)))))"

text \<open>
  \<open>JavaParser.parse\<close> on the text of an opened document. The text is split into lines
  before the \<open>try\<close> block is entered; splitting a string throws nothing.
\<close>

definition javaParse :: "JavaScanner \<Rightarrow> string \<Rightarrow> string \<Rightarrow> bool \<Rightarrow> exn + ParseResult" where
  "javaParse sc fsPath content isEntry = tryCatch (javaParseBody sc fsPath content isEntry)"

subsection \<open>Python\<close>

record PythonMethod =
  pm_name :: string
  pm_startLine :: nat
  pm_endLine :: nat
  pm_indent :: nat
  pm_decorators :: "string list"
  pm_parameters :: "Parameter list"
  pm_returnType :: string
  pm_isAsync :: bool
  pm_isStatic :: bool
  pm_isClassMethod :: bool
  pm_isProperty :: bool

record PythonClass =
  pc_name :: string
  pc_startLine :: nat
  pc_endLine :: nat
  pc_indent :: nat
  pc_decorators :: "string list"
  pc_bases :: "string list"
  pc_methods :: "PythonMethod list"

record PythonFunction =
  pf_name :: string
  pf_startLine :: nat
  pf_endLine :: nat
  pf_indent :: nat
  pf_decorators :: "string list"
  pf_parameters :: "Parameter list"
  pf_returnType :: string
  pf_isAsync :: bool

text \<open>
  The scanners of the Python parser, parameters like those of the Java parser.
  \<open>parseClasses\<close> returns each class with its methods; the import scanner yields, for
  each import line, the module and the label of the edge.
\<close>

record PythonScanner =
  ps_parseClasses :: "string list \<Rightarrow> exn + PythonClass list"
  ps_parseStandaloneFunctions :: "string list \<Rightarrow> PythonClass list \<Rightarrow> exn + PythonFunction list"
  ps_importLines :: "string list \<Rightarrow> exn + (string \<times> string) list"

definition pythonVisibility :: "string \<Rightarrow> Visibility" where
  "pythonVisibility name =
     (if startsWith name ''__'' \<and> \<not> endsWith name ''__'' then Private
      else if startsWith name ''_'' then Protected
      else Public)"

definition pythonClassNode :: "PythonClass \<Rightarrow> string \<Rightarrow> string list \<Rightarrow> CodeNode" where
  "pythonClassNode cls fsPath lines =
     blankNode \<lparr> nid := fsPath @ '':class:'' @ pc_name cls,
       label := pc_name cls, ntype := Class, language := Python, filePath := fsPath,
       startLine := pc_startLine cls + 1, endLine := pc_endLine cls + 1,
       visibility := Some (if startsWith (pc_name cls) ''_'' then Private else Public),
       sourceCode := sourceOf lines (pc_startLine cls) (pc_endLine cls) \<rparr>"

definition pythonMethodNode :: "PythonMethod \<Rightarrow> string \<Rightarrow> string \<Rightarrow> string list \<Rightarrow> CodeNode" where
  "pythonMethodNode method className fsPath lines =
     blankNode \<lparr> nid := fsPath @ '':method:'' @ className @ ''.'' @ pm_name method
                      @ '':'' @ showNat (pm_startLine method),
       label := pm_name method, ntype := Method, language := Python, filePath := fsPath,
       startLine := pm_startLine method + 1, endLine := pm_endLine method + 1,
       visibility := Some (pythonVisibility (pm_name method)),
       isAsync := Some (pm_isAsync method), isStatic := Some (pm_isStatic method),
       parameters := Some (pm_parameters method),
       returnType := (if pm_returnType method = [] then None else Some (pm_returnType method)),
       sourceCode := sourceOf lines (pm_startLine method) (pm_endLine method) \<rparr>"

definition pythonFunctionNode :: "PythonFunction \<Rightarrow> string \<Rightarrow> string list \<Rightarrow> CodeNode" where
  "pythonFunctionNode func fsPath lines =
     blankNode \<lparr> nid := fsPath @ '':function:'' @ pf_name func @ '':'' @ showNat (pf_startLine func),
       label := pf_name func, ntype := Function, language := Python, filePath := fsPath,
       startLine := pf_startLine func + 1, endLine := pf_endLine func + 1,
       visibility := Some (pythonVisibility (pf_name func)),
       isAsync := Some (pf_isAsync func), parameters := Some (pf_parameters func),
       returnType := (if pf_returnType func = [] then None else Some (pf_returnType func)),
       sourceCode := sourceOf lines (pf_startLine func) (pf_endLine func) \<rparr>"

definition pythonModuleNode :: "string \<Rightarrow> string \<Rightarrow> string \<Rightarrow> CodeNode" where
  "pythonModuleNode fsPath content name =
     blankNode \<lparr> nid := fsPath @ '':module:'' @ name,
       label := name, ntype := Module, language := Python, filePath := fsPath,
       startLine := 1, endLine := length (splitLines content),
       isEntryPoint := Some True, sourceCode := content \<rparr>"

definition pythonImportEdge :: "string \<Rightarrow> string \<times> string \<Rightarrow> CodeEdge" where
  "pythonImportEdge fsPath imp =
     \<lparr> efrom = fsPath, eto = fst imp, etype = Imports, elabel = Some (snd imp) \<rparr>"

definition pythonClassStep :: "string \<Rightarrow> string list \<Rightarrow> PythonClass \<Rightarrow> ParseResult \<Rightarrow> ParseResult" where
  "pythonClassStep fsPath lines cls acc =
     \<lparr> pnodes = pnodes acc @ pythonClassNode cls fsPath lines
                  # map (\<lambda>method. pythonMethodNode method (pc_name cls) fsPath lines) (pc_methods cls),
       pedges = pedges acc
                  @ map (\<lambda>method. containsEdge fsPath (pc_name cls) (pm_name method)) (pc_methods cls)
                  @ map (extendsEdge fsPath) (pc_bases cls) \<rparr>"

definition pythonParseBody :: "PythonScanner \<Rightarrow> string \<Rightarrow> string \<Rightarrow> bool \<Rightarrow> exn + ParseResult" where
  "pythonParseBody sc fsPath content isEntry =
     (let lines = splitLines content in
      case ps_parseClasses sc lines of
        Inl error \<Rightarrow> Inl error
      | Inr classes \<Rightarrow>
      (let afterClasses = fold (pythonClassStep fsPath lines) classes emptyResult in
       case ps_parseStandaloneFunctions sc lines classes of
        Inl error \<Rightarrow> Inl error
      | Inr functions \<Rightarrow>
      (let afterFunctions =
             afterClasses \<lparr> pnodes := pnodes afterClasses
                              @ map (\<lambda>func. pythonFunctionNode func fsPath lines) functions \<rparr>;
           withModule = moduleFallback
             (pythonModuleNode fsPath content (stripFirstSuffix [''.py''] (fileNameOf fsPath)))
             isEntry afterFunctions
       in case ps_importLines sc (splitLines content) of
            Inl error \<Rightarrow> Inl error
          | Inr imports \<Rightarrow>
              Inr (withModule \<lparr> pedges := pedges withModule @ map (pythonImportEdge fsPath) imports \<rparr>))))"

definition pythonParse :: "PythonScanner \<Rightarrow> string \<Rightarrow> string \<Rightarrow> bool \<Rightarrow> exn + ParseResult" where
  "pythonParse sc fsPath content isEntry = tryCatch (pythonParseBody sc fsPath content isEntry)"

subsection \<open>TypeScript, JavaScript and React\<close>

text \<open>
  The syntax tree built by the Babel parser: a node has a type and named fields; a field
  holds a child node, an array of child nodes, a string, or the source location (first
  and last line). The fields of a node are listed in the order in which the traversal
  visits them.
\<close>

datatype jsnode = JsNode (jtype: string) (jfields: "(string \<times> jsval) list")
  and jsval = JNode jsnode | JArray "jsnode list" | JString string | JLoc nat nat

definition field :: "jsnode \<Rightarrow> string \<Rightarrow> jsval option" where
  "field node key = map_of (jfields node) key"

definition childOf :: "jsnode \<Rightarrow> string \<Rightarrow> jsnode option" where
  "childOf node key = (case field node key of Some (JNode child) \<Rightarrow> Some child | _ \<Rightarrow> None)"

definition childrenOf :: "jsnode \<Rightarrow> string \<Rightarrow> jsnode list" where
  "childrenOf node key = (case field node key of Some (JArray children) \<Rightarrow> children | _ \<Rightarrow> [])"

definition textOf :: "jsnode \<Rightarrow> string \<Rightarrow> string option" where
  "textOf node key = (case field node key of Some (JString s) \<Rightarrow> Some s | _ \<Rightarrow> None)"

definition locOf :: "jsnode \<Rightarrow> (nat \<times> nat) option" where
  "locOf node = (case field node ''loc'' of Some (JLoc first final) \<Rightarrow> Some (first, final) | _ \<Rightarrow> None)"

text \<open>
  \<open>hasJSXReturn\<close>: a return statement is tested on its argument; any other node with an
  array in \<open>body\<close> is searched statement by statement; everything else is \<open>false\<close>.
\<close>

function hasJSXReturn :: "jsnode \<Rightarrow> bool" where
  "hasJSXReturn body =
     (if jtype body = ''ReturnStatement'' then
        (case field body ''argument'' of
           Some (JNode argument) \<Rightarrow> jtype argument = ''JSXElement''
         | _ \<Rightarrow> False)
      else
        (case field body ''body'' of
           Some (JArray statements) \<Rightarrow> list_ex hasJSXReturn statements
         | _ \<Rightarrow> False))"
  by pat_completeness auto
termination
proof (relation "measure size")
  show "wf (measure size)" by simp
next
  fix body :: jsnode and x2 statements stmt
  assume f: "field body ''body'' = Some x2" "x2 = JArray statements"
    and s: "stmt \<in> set statements"
  obtain t fs where n: "body = JsNode t fs" by (cases body)
  from f n have "(''body'', JArray statements) \<in> set fs"
    by (auto simp: field_def dest: map_of_SomeD)
  then have "size_prod (\<lambda>x. 0) size (''body'', JArray statements)
               \<le> size_list (size_prod (\<lambda>x. 0) size) fs"
    by (auto intro: size_list_estimation')
  moreover have "size stmt \<le> size_list size statements"
    using s by (auto intro: size_list_estimation')
  ultimately show "(stmt, body) \<in> measure size"
    using n by simp
qed

definition isReactComponent :: "jsnode \<Rightarrow> bool" where
  "isReactComponent node =
     (case childOf node ''body'' of
        Some body \<Rightarrow>
          if jtype body = ''BlockStatement'' then hasJSXReturn body
          else jtype body = ''JSXElement''
      | None \<Rightarrow> False)"

definition isReactClassComponent :: "jsnode \<Rightarrow> bool" where
  "isReactClassComponent node =
     (case childOf node ''superClass'' of
        Some superClass \<Rightarrow>
          (jtype superClass = ''Identifier'' \<and> textOf superClass ''name'' = Some ''Component'')
          \<or> (jtype superClass = ''MemberExpression''
               \<and> (case childOf superClass ''property'' of
                      Some property \<Rightarrow> textOf property ''name'' = Some ''Component''
                    | None \<Rightarrow> False))
      | None \<Rightarrow> False)"

definition scriptLanguage :: "string \<Rightarrow> Language" where
  "scriptLanguage fsPath =
     (if endsWith fsPath ''.tsx'' \<or> endsWith fsPath ''.ts'' then TypeScript else JavaScript)"

text \<open>\<open>node.id?.name\<close> and its relatives: the name of a child, when there is one.\<close>

definition nameOfChild :: "jsnode \<Rightarrow> string \<Rightarrow> string option" where
  "nameOfChild node key =
     (case childOf node key of
        Some child \<Rightarrow> (case textOf child ''name'' of Some n \<Rightarrow> if n = [] then None else Some n
                                                    | None \<Rightarrow> None)
      | None \<Rightarrow> None)"

definition firstLine :: "jsnode \<Rightarrow> nat" where
  "firstLine node = (case locOf node of Some (first, final) \<Rightarrow> first | None \<Rightarrow> 0)"

definition finalLine :: "jsnode \<Rightarrow> nat" where
  "finalLine node = (case locOf node of Some (first, final) \<Rightarrow> final | None \<Rightarrow> 0)"

definition extractSource :: "string \<Rightarrow> jsnode \<Rightarrow> string" where
  "extractSource content node =
     (if firstLine node = 0 \<or> finalLine node = 0 then []
      else joinWith [CHR 0x0A] (sliceLines (splitLines content) (firstLine node - 1) (finalLine node)))"

text \<open>
  \<open>extractProps\<close> reads the keys of a destructured first parameter. A key that carries
  no name puts \<open>undefined\<close> into the array; it is the empty text here.
\<close>

definition extractProps :: "jsnode \<Rightarrow> string list" where
  "extractProps node =
     (case childrenOf node ''params'' of
        [] \<Rightarrow> []
      | firstParam # others \<Rightarrow>
          if jtype firstParam = ''ObjectPattern'' then
            map (\<lambda>prop. case nameOfChild prop ''key'' of Some n \<Rightarrow> n | None \<Rightarrow> [])
                (filter (\<lambda>prop. childOf prop ''key'' \<noteq> None) (childrenOf firstParam ''properties''))
          else [])"

definition extractParameters :: "jsnode \<Rightarrow> Parameter list" where
  "extractParameters node =
     map (\<lambda>param.
            \<lparr> pname = (case textOf param ''name'' of
                         Some n \<Rightarrow> if n = [] then ''unknown'' else n
                       | None \<Rightarrow> ''unknown''),
              ptype = (case childOf param ''typeAnnotation'' of
                         Some outer \<Rightarrow> (case childOf outer ''typeAnnotation'' of
                                           Some inner \<Rightarrow> if jtype inner = [] then ''any'' else jtype inner
                                         | None \<Rightarrow> ''any'')
                       | None \<Rightarrow> ''any''),
              optional = None, defaultValue = None \<rparr>)
         (childrenOf node ''params'')"

definition createComponentNode :: "jsnode \<Rightarrow> string \<Rightarrow> string \<Rightarrow> CodeNode" where
  "createComponentNode node fsPath content =
     (let name = (case nameOfChild node ''id'' of
                    Some n \<Rightarrow> n
                  | None \<Rightarrow> (case nameOfChild node ''key'' of Some n \<Rightarrow> n | None \<Rightarrow> ''Anonymous''))
      in blankNode \<lparr> nid := fsPath @ '':component:'' @ name,
           label := name, ntype := Component, language := scriptLanguage fsPath,
           filePath := fsPath, startLine := firstLine node, endLine := finalLine node,
           props := Some (extractProps node), hooks := Some [],
           sourceCode := extractSource content node \<rparr>)"

definition createFunctionNode :: "jsnode \<Rightarrow> string \<Rightarrow> string \<Rightarrow> CodeNode" where
  "createFunctionNode node fsPath content =
     (let name = (case nameOfChild node ''id'' of Some n \<Rightarrow> n | None \<Rightarrow> ''Anonymous'')
      in blankNode \<lparr> nid := fsPath @ '':function:'' @ name @ '':''
                        @ (case locOf node of Some (first, final) \<Rightarrow> showNat first
                                            | None \<Rightarrow> ''undefined''),
           label := name, ntype := Function, language := scriptLanguage fsPath,
           filePath := fsPath, startLine := firstLine node, endLine := finalLine node,
           parameters := Some (extractParameters node),
           sourceCode := extractSource content node \<rparr>)"

definition createClassComponentNode :: "jsnode \<Rightarrow> string \<Rightarrow> string \<Rightarrow> CodeNode" where
  "createClassComponentNode node fsPath content =
     (let name = (case nameOfChild node ''id'' of Some n \<Rightarrow> n | None \<Rightarrow> ''Anonymous'')
      in blankNode \<lparr> nid := fsPath @ '':class:'' @ name,
           label := name, ntype := Class, language := scriptLanguage fsPath,
           filePath := fsPath, startLine := firstLine node, endLine := finalLine node,
           sourceCode := extractSource content node \<rparr>)"

definition reactModuleNode :: "string \<Rightarrow> string \<Rightarrow> string \<Rightarrow> CodeNode" where
  "reactModuleNode fsPath content name =
     blankNode \<lparr> nid := fsPath @ '':module:'' @ name,
       label := name, ntype := Module, language := scriptLanguage fsPath, filePath := fsPath,
       startLine := 1, endLine := length (splitLines content),
       isEntryPoint := Some True, sourceCode := content \<rparr>"

text \<open>
  The visitors of \<open>ReactParser.parse\<close>, as the nodes each one pushes when the traversal
  enters a syntax node. The visitor of import declarations pushes nothing.
\<close>

definition visitFunctionDeclaration :: "string \<Rightarrow> string \<Rightarrow> jsnode \<Rightarrow> CodeNode list" where
  "visitFunctionDeclaration fsPath content node =
     (if isReactComponent node then [createComponentNode node fsPath content]
      else [createFunctionNode node fsPath content])"

definition visitVariableDeclarator :: "string \<Rightarrow> string \<Rightarrow> jsnode \<Rightarrow> CodeNode list" where
  "visitVariableDeclarator fsPath content node =
     (case childOf node ''init'' of
        Some init \<Rightarrow>
          if jtype init = ''ArrowFunctionExpression'' \<or> jtype init = ''FunctionExpression'' then
            (if isReactComponent init then [createComponentNode node fsPath content] else [])
          else []
      | None \<Rightarrow> [])"

definition visitClassDeclaration :: "string \<Rightarrow> string \<Rightarrow> jsnode \<Rightarrow> CodeNode list" where
  "visitClassDeclaration fsPath content node =
     (if isReactClassComponent node then [createClassComponentNode node fsPath content] else [])"

definition visit :: "string \<Rightarrow> string \<Rightarrow> jsnode \<Rightarrow> CodeNode list" where
  "visit fsPath content node =
     (if jtype node = ''FunctionDeclaration'' then visitFunctionDeclaration fsPath content node
      else if jtype node = ''VariableDeclarator'' then visitVariableDeclarator fsPath content node
      else if jtype node = ''ClassDeclaration'' then visitClassDeclaration fsPath content node
      else [])"

text \<open>
  \<open>traverse\<close> of the Babel library enters every node of the tree once, a node before its
  children, the children in field order.
\<close>

function allNodes :: "jsnode \<Rightarrow> jsnode list" where
  "allNodes node =
     node # concat (map (\<lambda>kv. case snd kv of
                                 JNode child \<Rightarrow> allNodes child
                               | JArray children \<Rightarrow> concat (map allNodes children)
                               | _ \<Rightarrow> [])
                        (jfields node))"
  by pat_completeness auto
termination
proof (relation "measure size")
  show "wf (measure size)" by simp
next
  fix node :: jsnode and kv child
  assume kv: "kv \<in> set (jfields node)" "snd kv = JNode child"
  obtain t fs where n: "node = JsNode t fs" by (cases node)
  from kv n have "(fst kv, JNode child) \<in> set fs"
    by (metis jsnode.sel(2) prod.collapse)
  then have "size_prod (\<lambda>x. 0) size (fst kv, JNode child)
               \<le> size_list (size_prod (\<lambda>x. 0) size) fs"
    by (auto intro: size_list_estimation')
  then show "(child, node) \<in> measure size"
    using n by simp
next
  fix node :: jsnode and kv children child
  assume kv: "kv \<in> set (jfields node)" "snd kv = JArray children"
    and c: "child \<in> set children"
  obtain t fs where n: "node = JsNode t fs" by (cases node)
  from kv n have "(fst kv, JArray children) \<in> set fs"
    by (metis jsnode.sel(2) prod.collapse)
  then have "size_prod (\<lambda>x. 0) size (fst kv, JArray children)
               \<le> size_list (size_prod (\<lambda>x. 0) size) fs"
    by (auto intro: size_list_estimation')
  moreover have "size child \<le> size_list size children"
    using c by (auto intro: size_list_estimation')
  ultimately show "(child, node) \<in> measure size"
    using n by simp
qed

text \<open>
  The parser of the Babel library is a parameter; it throws on text it cannot parse.
  The body of the \<open>try\<close> block: parse, run the visitors over the tree, add the module
  node of a bootstrap or entry file when no node was found. \<open>extractRelationships\<close> is
  empty in the source and adds no edge.
\<close>

definition reactParseBody :: "(string \<Rightarrow> exn + jsnode) \<Rightarrow> string \<Rightarrow> string \<Rightarrow> bool \<Rightarrow> exn + ParseResult" where
  "reactParseBody babelParse fsPath content isEntry =
     (case babelParse content of
        Inl error \<Rightarrow> Inl error
      | Inr ast \<Rightarrow>
          (let found = \<lparr> pnodes = concat (map (visit fsPath content) (allNodes ast)), pedges = [] \<rparr>;
               isBootstrapFile = (includesText content ''createRoot''
                                  \<or> includesText content ''ReactDOM.render''
                                  \<or> includesText content ''render('')
           in Inr (moduleFallback
                     (reactModuleNode fsPath content
                        (stripFirstSuffix [''.tsx'', ''.ts'', ''.jsx'', ''.js''] (fileNameOf fsPath)))
                     (isBootstrapFile \<or> isEntry) found)))"

definition reactParse :: "(string \<Rightarrow> exn + jsnode) \<Rightarrow> string \<Rightarrow> string \<Rightarrow> bool \<Rightarrow> exn + ParseResult" where
  "reactParse babelParse fsPath content isEntry = tryCatch (reactParseBody babelParse fsPath content isEntry)"

section \<open>Invariants and projections used in the proofs\<close>

text \<open>The \<open>Map\<close> of \<open>deduplicateNodes\<close> holds each key once, with a node of that id.\<close>

definition nodeMapInv :: "(string \<times> CodeNode) list \<Rightarrow> bool" where
  "nodeMapInv seen = (distinct (map fst seen) \<and> (\<forall>(k, n) \<in> set seen. nid n = k))"

text \<open>The triple that the specification names as the identity of an edge.\<close>

definition edgeTriple :: "CodeEdge \<Rightarrow> string \<times> string \<times> EdgeType" where
  "edgeTriple e = (efrom e, eto e, etype e)"

text \<open>The two id sets of \<open>filterByDepth\<close> are updated together and hold no id twice.\<close>

definition traverseInv :: "TraverseState \<Rightarrow> bool" where
  "traverseInv st = (nodesToInclude st = visited st \<and> distinct (visited st))"

text \<open>A \<open>contains\<close> edge that starts and ends at the file path.\<close>

definition fromTo :: "string \<Rightarrow> CodeEdge \<Rightarrow> bool" where
  "fromTo fsPath e = (etype e = Contains \<longrightarrow> efrom e = fsPath \<and> eto e = fsPath)"

text \<open>
  The methods that the method scan of the Java parser returns for a class; a scan that
  throws returns none.
\<close>

definition scannedMethods :: "JavaScanner \<Rightarrow> string list \<Rightarrow> JavaClass \<Rightarrow> JavaMethod list" where
  "scannedMethods sc lines cls =
     (case js_parseMethods sc lines (jc_startLine cls) (jc_endLine cls) (jc_name cls) of
        Inl error \<Rightarrow> []
      | Inr methods \<Rightarrow> methods)"

section \<open>Example inputs\<close>

definition sampleNode :: "string \<Rightarrow> string \<Rightarrow> CodeNode" where
  "sampleNode i p = \<lparr> nid = i, label = i, ntype = Class, language = TypeScript, filePath = p,
     startLine = 1, endLine = 1, visibility = None, isAsync = None, isStatic = None,
     isEntryPoint = None, isPrimaryEntry = None, parameters = None, returnType = None,
     props = None, hooks = None, sourceCode = [] \<rparr>"

definition sampleEdge :: "string \<Rightarrow> string \<Rightarrow> CodeEdge" where
  "sampleEdge a b = \<lparr> efrom = a, eto = b, etype = Imports, elabel = None \<rparr>"

definition sampleGraph :: "CodeNode list \<Rightarrow> CodeEdge list \<Rightarrow> CodeGraph" where
  "sampleGraph ns es =
     \<lparr> nodes = ns, edges = es,
       metadata = \<lparr> totalFiles = length ns, totalNodes = length ns, languages = [TypeScript],
                    rootPath = ''/ws'', analyzedAt = 0, entryPoints = None \<rparr> \<rparr>"

text \<open>Two files, one importing the other; edges carry file paths.\<close>

definition fileGraph :: CodeGraph where
  "fileGraph = sampleGraph [sampleNode ''/ws/a.ts:function:f:1'' ''/ws/a.ts'',
                            sampleNode ''/ws/b.ts:function:g:1'' ''/ws/b.ts'',
                            sampleNode ''/ws/b.ts:function:h:5'' ''/ws/b.ts'']
                           [sampleEdge ''/ws/a.ts'' ''/ws/b.ts'']"

text \<open>Two nodes \<open>a\<close> and \<open>b\<close> and the edge from \<open>a\<close> to \<open>b\<close>, keyed by node id.\<close>

definition pairGraph :: CodeGraph where
  "pairGraph = sampleGraph [sampleNode ''a'' ''/ws/a.ts'', sampleNode ''b'' ''/ws/b.ts'']
                           [sampleEdge ''a'' ''b'']"

text \<open>
  A root \<open>r\<close> with a long path \<open>r, p1, p2, b\<close> listed before the short edge from \<open>r\<close> to
  \<open>b\<close>; below \<open>b\<close> hang \<open>c\<close> and \<open>e\<close>.
\<close>

definition detourGraph :: CodeGraph where
  "detourGraph = sampleGraph (map (\<lambda>i. sampleNode i (''/ws/'' @ i @ ''.ts''))
                                 [''r'', ''p1'', ''p2'', ''b'', ''c'', ''e''])
                             [sampleEdge ''r'' ''p1'', sampleEdge ''p1'' ''p2'', sampleEdge ''p2'' ''b'',
                              sampleEdge ''r'' ''b'', sampleEdge ''b'' ''c'', sampleEdge ''c'' ''e'']"

text \<open>A root whose only edge points at an id that no node of the graph has.\<close>

definition danglingGraph :: CodeGraph where
  "danglingGraph = sampleGraph [sampleNode ''r'' ''/ws/r.ts''] [sampleEdge ''r'' ''x'']"

text \<open>
  Two \<open>extends\<close> edges with different (from, to, type) triples and the same key string:
  the class \<open>A(old.py-Base)\<close> of \<open>/ws/a.py\<close> and the class \<open>B(Base)\<close> of the
  file \<open>/ws/a.py-old.py\<close>.
\<close>

definition collideA :: CodeEdge where
  "collideA = \<lparr> efrom = ''/ws/a.py'', eto = ''old.py-Base'', etype = Extends,
                 elabel = Some ''extends old.py-Base'' \<rparr>"

definition collideB :: CodeEdge where
  "collideB = \<lparr> efrom = ''/ws/a.py-old.py'', eto = ''Base'', etype = Extends,
                 elabel = Some ''extends Base'' \<rparr>"

text \<open>
  Candidate lists of entry-point detection: a nested \<open>index.ts\<close> beside a Java main class,
  and \<open>src/index.tsx\<close> beside the same Java main class.
\<close>

definition candidate :: "string \<Rightarrow> EntryType \<Rightarrow> int \<Rightarrow> EntryPoint" where
  "candidate p t s = \<lparr> ep_filePath = p, ep_type = t, score = s, ep_isPrimaryEntry = None \<rparr>"

definition nestedIndexWorkspace :: "EntryPoint list" where
  "nestedIndexWorkspace =
     [candidate ''/ws/src/components/index.ts'' EntryIndex 12,
      candidate ''/ws/app/Main.java'' EntryMain 12]"

definition mixedWorkspace :: "EntryPoint list" where
  "mixedWorkspace =
     [candidate ''/ws/app/Main.java'' EntryMain 12,
      candidate ''/ws/src/index.tsx'' EntryIndex 17]"

text \<open>A directory \<open>utils\<close> beside a file \<open>utils.ts\<close>.\<close>

definition utilsFiles :: "string \<Rightarrow> bool" where
  "utilsFiles p = (p = ''/ws/src/utils'' \<or> p = ''/ws/src/utils.ts'')"

text \<open>
  A Java file with the class \<open>Foo\<close> and the method \<open>bar\<close>, the method on a line of its
  own and closed on that line, with what the scanners find in it: the class on lines 0
  to 2 and the method on line 1 (after that line the brace depth is 1 again).
\<close>

definition fooSource :: string where
  "fooSource = joinWith [CHR 0x0A] [''public class Foo {'', ''  public void bar() {}'', ''}'']"

definition fooClass :: JavaClass where
  "fooClass = \<lparr> jc_name = ''Foo'', jc_startLine = 0, jc_endLine = 2, jc_visibility = Public,
     jc_isAbstract = False, jc_isFinal = False, jc_isStatic = False, jc_extendsClass = None,
     jc_implementsInterfaces = [], jc_annotations = [] \<rparr>"

definition barMethod :: JavaMethod where
  "barMethod = \<lparr> jm_name = ''bar'', jm_startLine = 1, jm_endLine = 1, jm_visibility = Public,
     jm_isAbstract = False, jm_isFinal = False, jm_isStatic = False, jm_isSynchronized = False,
     jm_returnType = ''void'', jm_parameters = [], jm_annotations = [], jm_className = ''Foo'' \<rparr>"

definition fooScanner :: JavaScanner where
  "fooScanner = \<lparr> js_parseClasses = (\<lambda>lines. Inr [fooClass]),
     js_parseMethods = (\<lambda>lines first final className. Inr [barMethod]),
     js_parseInterfaces = (\<lambda>lines. Inr []),
     js_importLines = (\<lambda>lines. Inr []) \<rparr>"

text \<open>A Java scanner whose method scan throws.\<close>

definition failingScanner :: JavaScanner where
  "failingScanner = fooScanner \<lparr> js_parseMethods :=
     (\<lambda>lines first final className. Inl (Thrown ''TypeError'')) \<rparr>"

text \<open>
  The Python file of the specification's scenario: the class \<open>Dog\<close> with the base
  \<open>Animal\<close> and the method \<open>speak\<close>.
\<close>

definition dogSource :: string where
  "dogSource = joinWith [CHR 0x0A] [''class Dog(Animal):'', ''    def speak(self): pass'']"

definition speakMethod :: PythonMethod where
  "speakMethod = \<lparr> pm_name = ''speak'', pm_startLine = 1, pm_endLine = 1, pm_indent = 4,
     pm_decorators = [], pm_parameters = [], pm_returnType = [], pm_isAsync = False,
     pm_isStatic = False, pm_isClassMethod = False, pm_isProperty = False \<rparr>"

definition dogClass :: PythonClass where
  "dogClass = \<lparr> pc_name = ''Dog'', pc_startLine = 0, pc_endLine = 1, pc_indent = 0,
     pc_decorators = [], pc_bases = [''Animal''], pc_methods = [speakMethod] \<rparr>"

definition dogScanner :: PythonScanner where
  "dogScanner = \<lparr> ps_parseClasses = (\<lambda>lines. Inr [dogClass]),
     ps_parseStandaloneFunctions = (\<lambda>lines classes. Inr []),
     ps_importLines = (\<lambda>lines. Inr []) \<rparr>"

text \<open>A Python scanner whose function scan throws.\<close>

definition failingPythonScanner :: PythonScanner where
  "failingPythonScanner = dogScanner \<lparr> ps_parseStandaloneFunctions :=
     (\<lambda>lines classes. Inl (Thrown ''TypeError'')) \<rparr>"

text \<open>
  Two TypeScript sources with the trees the parser builds for them: the arrow function
  \<open>const add = (a, b) => a + b;\<close> and the declaration
  \<open>function add(a, b) { return a + b; }\<close>. Any other text is a syntax error.
\<close>

definition identifierNode :: "string \<Rightarrow> jsnode" where
  "identifierNode name = JsNode ''Identifier'' [(''name'', JString name), (''loc'', JLoc 1 1)]"

definition sumExpression :: jsnode where
  "sumExpression = JsNode ''BinaryExpression''
     [(''left'', JNode (identifierNode ''a'')), (''right'', JNode (identifierNode ''b'')), (''loc'', JLoc 1 1)]"

definition arrowSource :: string where
  "arrowSource = ''const add = (a, b) => a + b;''"

definition arrowTree :: jsnode where
  "arrowTree = JsNode ''File'' [(''program'', JNode (JsNode ''Program'' [(''body'', JArray
     [JsNode ''VariableDeclaration'' [(''declarations'', JArray
        [JsNode ''VariableDeclarator''
           [(''id'', JNode (identifierNode ''add'')),
            (''init'', JNode (JsNode ''ArrowFunctionExpression''
               [(''params'', JArray [identifierNode ''a'', identifierNode ''b'']),
                (''body'', JNode sumExpression), (''loc'', JLoc 1 1)])),
            (''loc'', JLoc 1 1)]]),
        (''loc'', JLoc 1 1)]]), (''loc'', JLoc 1 1)])), (''loc'', JLoc 1 1)]"

definition declarationSource :: string where
  "declarationSource = ''function add(a, b) { return a + b; }''"

definition declarationTree :: jsnode where
  "declarationTree = JsNode ''File'' [(''program'', JNode (JsNode ''Program'' [(''body'', JArray
     [JsNode ''FunctionDeclaration''
        [(''id'', JNode (identifierNode ''add'')),
         (''params'', JArray [identifierNode ''a'', identifierNode ''b'']),
         (''body'', JNode (JsNode ''BlockStatement'' [(''body'', JArray
            [JsNode ''ReturnStatement'' [(''argument'', JNode sumExpression), (''loc'', JLoc 1 1)]]),
            (''loc'', JLoc 1 1)])),
         (''loc'', JLoc 1 1)]]), (''loc'', JLoc 1 1)])), (''loc'', JLoc 1 1)]"

definition sampleBabel :: "string \<Rightarrow> exn + jsnode" where
  "sampleBabel content =
     (if content = arrowSource then Inr arrowTree
      else if content = declarationSource then Inr declarationTree
      else Inl (Thrown ''SyntaxError''))"

section \<open>Properties of the dependency queries\<close>

text \<open>
  C8. \<open>getDependencies\<close> looks the node up by id and returns, in graph order, exactly the
  nodes whose file path is the target of some edge whose source is the looked-up node's
  file path; it returns the empty list when no node has the id. \<open>getDependents\<close> is the
  mirror image over edge targets.
\<close>

theorem getDependencies_spec:
  "getDependencies g i =
     (case List.find (\<lambda>n. nid n = i) (nodes g) of
        None \<Rightarrow> []
      | Some node \<Rightarrow>
          filter (\<lambda>n. \<exists>e \<in> set (edges g). efrom e = filePath node \<and> eto e = filePath n) (nodes g))
   \<and> getDependents g i =
     (case List.find (\<lambda>n. nid n = i) (nodes g) of
        None \<Rightarrow> []
      | Some node \<Rightarrow>
          filter (\<lambda>n. \<exists>e \<in> set (edges g). eto e = filePath node \<and> efrom e = filePath n) (nodes g))
   \<and> ((\<forall>n \<in> set (nodes g). nid n \<noteq> i) \<longrightarrow> getDependencies g i = [] \<and> getDependents g i = [])"
proof -
  have a: "\<And>p n. (filePath n \<in> set (map eto (filter (\<lambda>e. efrom e = p) (edges g))))
             = (\<exists>e \<in> set (edges g). efrom e = p \<and> eto e = filePath n)"
    by (auto simp: image_iff)
  have b: "\<And>p n. (filePath n \<in> set (map efrom (filter (\<lambda>e. eto e = p) (edges g))))
             = (\<exists>e \<in> set (edges g). eto e = p \<and> efrom e = filePath n)"
    by (auto simp: image_iff)
  have c: "(\<forall>n \<in> set (nodes g). nid n \<noteq> i) \<Longrightarrow> List.find (\<lambda>n. nid n = i) (nodes g) = None"
    by (simp add: find_None_iff)
  show ?thesis
    unfolding getDependencies_def getDependents_def Let_def a b
    using c by (auto split: option.splits)
qed


theorem getDependencies_spec_witness:
  "getDependencies fileGraph ''/ws/a.ts:function:f:1''
     = [sampleNode ''/ws/b.ts:function:g:1'' ''/ws/b.ts'', sampleNode ''/ws/b.ts:function:h:5'' ''/ws/b.ts'']
   \<and> getDependents fileGraph ''/ws/b.ts:function:h:5'' = [sampleNode ''/ws/a.ts:function:f:1'' ''/ws/a.ts'']
   \<and> ''/ws/c.ts:function:k:1'' \<notin> nid ` set (nodes fileGraph)
   \<and> getDependencies fileGraph ''/ws/c.ts:function:k:1'' = []
   \<and> getDependents fileGraph ''/ws/c.ts:function:k:1'' = []"
  using getDependencies_spec [of fileGraph "''/ws/a.ts:function:f:1''"]
        getDependencies_spec [of fileGraph "''/ws/b.ts:function:h:5''"]
        getDependencies_spec [of fileGraph "''/ws/c.ts:function:k:1''"]
  by (simp add: fileGraph_def sampleGraph_def sampleNode_def sampleEdge_def)

section \<open>Properties of deduplication\<close>

lemma setAdd_set: "set (setAdd x s) = insert x (set s)"
  by (auto simp: setAdd_def)

lemma nodeMapInv_step:
  "nodeMapInv seen \<Longrightarrow>
   nodeMapInv (if map_of seen (nid n) = None then seen @ [(nid n, n)] else seen)"
  by (auto simp: nodeMapInv_def map_of_eq_None_iff)

lemma dedupNodes_loop_inv:
  "nodeMapInv seen \<Longrightarrow> nodeMapInv (deduplicateNodes_loop ns seen)"
proof (induction ns arbitrary: seen)
  case Nil
  then show ?case by simp
next
  case (Cons n ns)
  show ?case
    using Cons.IH [OF nodeMapInv_step [OF Cons.prems]] by simp
qed

lemma dedupNodes_loop_keys:
  "fst ` set (deduplicateNodes_loop ns seen) = fst ` set seen \<union> nid ` set ns"
proof (induction ns arbitrary: seen)
  case Nil
  then show ?case by simp
next
  case (Cons n ns)
  show ?case
    by (simp add: Cons.IH map_of_eq_None_iff) blast
qed

lemma dedupNodes_loop_first:
  "(k, n) \<in> set (deduplicateNodes_loop ns seen) \<Longrightarrow>
   (k, n) \<in> set seen \<or> (k \<notin> fst ` set seen \<and> List.find (\<lambda>m. nid m = k) ns = Some n)"
proof (induction ns arbitrary: seen)
  case Nil
  then show ?case by simp
next
  case (Cons a ns)
  let ?seen' = "if map_of seen (nid a) = None then seen @ [(nid a, a)] else seen"
  from Cons.prems have "(k, n) \<in> set (deduplicateNodes_loop ns ?seen')" by simp
  from Cons.IH [OF this]
  have c: "(k, n) \<in> set ?seen' \<or> (k \<notin> fst ` set ?seen' \<and> List.find (\<lambda>m. nid m = k) ns = Some n)" .
  show ?case
  proof (cases "map_of seen (nid a) = None")
    case True
    then have fresh: "nid a \<notin> fst ` set seen" by (simp add: map_of_eq_None_iff)
    from c True show ?thesis using fresh by (auto split: if_splits)
  next
    case False
    then have old: "nid a \<in> fst ` set seen" by (simp add: map_of_eq_None_iff)
    from c False show ?thesis using old by (auto split: if_splits)
  qed
qed

lemma deduplicateNodes_distinct: "distinct (map nid (deduplicateNodes ns))"
proof -
  have i: "nodeMapInv (deduplicateNodes_loop ns [])"
    by (rule dedupNodes_loop_inv) (simp add: nodeMapInv_def)
  have "map nid (map snd (deduplicateNodes_loop ns [])) = map fst (deduplicateNodes_loop ns [])"
    using i by (auto simp: nodeMapInv_def)
  moreover have "distinct (map fst (deduplicateNodes_loop ns []))"
    using i by (simp add: nodeMapInv_def)
  ultimately show ?thesis by (simp only: deduplicateNodes_def)
qed

lemma deduplicateNodes_keys: "nid ` set (deduplicateNodes ns) = nid ` set ns"
proof -
  have i: "nodeMapInv (deduplicateNodes_loop ns [])"
    by (rule dedupNodes_loop_inv) (simp add: nodeMapInv_def)
  have "nid ` snd ` set (deduplicateNodes_loop ns []) = fst ` set (deduplicateNodes_loop ns [])"
    using i by (force simp: nodeMapInv_def image_iff)
  then show ?thesis
    using dedupNodes_loop_keys [of ns "[]"] by (simp add: deduplicateNodes_def)
qed

lemma deduplicateNodes_first:
  assumes "n \<in> set (deduplicateNodes ns)"
  shows "List.find (\<lambda>m. nid m = nid n) ns = Some n"
proof -
  have i: "nodeMapInv (deduplicateNodes_loop ns [])"
    by (rule dedupNodes_loop_inv) (simp add: nodeMapInv_def)
  from assms obtain k where kn: "(k, n) \<in> set (deduplicateNodes_loop ns [])"
    by (auto simp: deduplicateNodes_def)
  with i have "nid n = k" by (auto simp: nodeMapInv_def)
  with dedupNodes_loop_first [OF kn] show ?thesis by simp
qed

lemma dedupEdges_loop_keys:
  "edgeKey ` set (deduplicateEdges_loop es seen) = edgeKey ` set es - set seen"
  by (induction es arbitrary: seen) (auto simp: setAdd_set)

lemma dedupEdges_loop_distinct:
  "distinct (map edgeKey (deduplicateEdges_loop es seen))"
proof (induction es arbitrary: seen)
  case Nil
  then show ?case by simp
next
  case (Cons e es)
  have "edgeKey e \<notin> edgeKey ` set (deduplicateEdges_loop es (setAdd (edgeKey e) seen))"
    by (simp add: dedupEdges_loop_keys setAdd_set)
  then show ?case using Cons.IH by simp
qed

lemma dedupEdges_loop_first:
  "e \<in> set (deduplicateEdges_loop es seen) \<Longrightarrow>
   List.find (\<lambda>x. edgeKey x = edgeKey e) es = Some e"
proof (induction es arbitrary: seen)
  case Nil
  then show ?case by simp
next
  case (Cons a es)
  show ?case
  proof (cases "edgeKey a \<in> set seen")
    case True
    with Cons.prems have m: "e \<in> set (deduplicateEdges_loop es seen)" by simp
    then have "edgeKey e \<in> edgeKey ` set es - set seen"
      using dedupEdges_loop_keys [of es seen] by blast
    with True have "edgeKey a \<noteq> edgeKey e" by auto
    with Cons.IH [OF m] show ?thesis by simp
  next
    case False
    show ?thesis
    proof (cases "e = a")
      case True
      then show ?thesis by simp
    next
      case ne: False
      with Cons.prems False
      have m: "e \<in> set (deduplicateEdges_loop es (setAdd (edgeKey a) seen))" by simp
      then have "edgeKey e \<in> edgeKey ` set es - set (setAdd (edgeKey a) seen)"
        using dedupEdges_loop_keys [of es "setAdd (edgeKey a) seen"] by blast
      then have "edgeKey a \<noteq> edgeKey e" by (auto simp: setAdd_set)
      with Cons.IH [OF m] show ?thesis by simp
    qed
  qed
qed

lemma edgeKey_of_triple: "edgeTriple a = edgeTriple b \<Longrightarrow> edgeKey a = edgeKey b"
  by (simp add: edgeTriple_def edgeKey_def)

lemma deduplicateEdges_distinct_triples: "distinct (map edgeTriple (deduplicateEdges es))"
proof -
  have d: "distinct (map edgeKey (deduplicateEdges es))"
    by (simp add: deduplicateEdges_def dedupEdges_loop_distinct)
  have "inj_on edgeTriple (set (deduplicateEdges es))"
  proof (rule inj_onI)
    fix a b assume a: "a \<in> set (deduplicateEdges es)" and b: "b \<in> set (deduplicateEdges es)"
      and t: "edgeTriple a = edgeTriple b"
    from t have "edgeKey a = edgeKey b" by (rule edgeKey_of_triple)
    with d a b show "a = b" by (meson distinct_map inj_onD)
  qed
  moreover have "distinct (deduplicateEdges es)" using d by (simp add: distinct_map)
  ultimately show ?thesis by (simp add: distinct_map)
qed

text \<open>
  The node half of the deduplication contract: ids are pairwise distinct in the output,
  every input id is present, and the node kept for an id is its first occurrence.
\<close>

lemma buildFromEntryPoints_nodes:
  "distinct (map nid (nodes (buildFromEntryPoints now ns es root eps)))"
  "nid ` set (nodes (buildFromEntryPoints now ns es root eps)) = nid ` set ns"
  "n \<in> set (nodes (buildFromEntryPoints now ns es root eps)) \<Longrightarrow>
     List.find (\<lambda>m. nid m = nid n) ns = Some n"
  by (simp_all add: buildFromEntryPoints_def Let_def deduplicateNodes_distinct
        deduplicateNodes_keys deduplicateNodes_first)

text \<open>
  The edge half, as far as it holds: no two output edges share a triple, and the edge
  kept for a key string is the first input edge with that key.
\<close>

lemma buildFromEntryPoints_edges:
  "distinct (map edgeTriple (edges (buildFromEntryPoints now ns es root eps)))"
  "e \<in> set (edges (buildFromEntryPoints now ns es root eps)) \<Longrightarrow>
     List.find (\<lambda>x. edgeKey x = edgeKey e) es = Some e"
proof -
  show "distinct (map edgeTriple (edges (buildFromEntryPoints now ns es root eps)))"
    by (simp add: buildFromEntryPoints_def Let_def deduplicateEdges_distinct_triples)
  show "e \<in> set (edges (buildFromEntryPoints now ns es root eps)) \<Longrightarrow>
     List.find (\<lambda>x. edgeKey x = edgeKey e) es = Some e"
    by (simp add: buildFromEntryPoints_def Let_def deduplicateEdges_def dedupEdges_loop_first)
qed

text \<open>
  C7. The claim asks that every distinct (from, to, type) triple of the input is
  represented in the output. The key string joins the three parts with \<open>-\<close>, so the
  triples (\<open>/ws/a.py\<close>, \<open>old.py-Base\<close>, extends) and (\<open>/ws/a.py-old.py\<close>, \<open>Base\<close>,
  extends) have the one key \<open>/ws/a.py-old.py-Base-extends\<close>: the second edge is dropped
  although no edge with its triple is kept.
\<close>

theorem buildFromEntryPoints_key_collision:
  "edges (buildFromEntryPoints 0 [] [collideA, collideB] ''/ws'' []) = [collideA]
   \<and> edgeTriple collideA = (''/ws/a.py'', ''old.py-Base'', Extends)
   \<and> edgeTriple collideB = (''/ws/a.py-old.py'', ''Base'', Extends)
   \<and> edgeKey collideA = ''/ws/a.py-old.py-Base-extends''
   \<and> edgeKey collideB = ''/ws/a.py-old.py-Base-extends''"
  by (simp add: buildFromEntryPoints_def deduplicateEdges_def deduplicateNodes_def edgeKey_def
        setAdd_def collideA_def collideB_def edgeTriple_def)

section \<open>Properties of the depth-limited extraction\<close>

lemma setAdd_distinct: "distinct s \<Longrightarrow> distinct (setAdd x s)"
  by (simp add: setAdd_def)

lemma traverse_inv: "traverseInv st \<Longrightarrow> traverseInv (traverse es m i d st)"
proof (induction es m i d st rule: traverse.induct)
  case (1 es maxDepth nodeId depth st)
  show ?case
  proof (cases "depth > maxDepth \<or> nodeId \<in> set (visited st)")
    case True
    then show ?thesis using "1.prems" by simp
  next
    case False
    let ?st0 = "st\<lparr> visited := setAdd nodeId (visited st),
                  nodesToInclude := setAdd nodeId (nodesToInclude st) \<rparr>"
    let ?out = "filter (\<lambda>e. efrom e = nodeId) es"
    let ?f = "\<lambda>edge s. traverse es maxDepth (eto edge) (depth + 1)
                  (s\<lparr> edgesToInclude := edgesToInclude s @ [edge] \<rparr>)"
    have i0: "traverseInv ?st0"
      using "1.prems" by (simp add: traverseInv_def setAdd_distinct)
    have "traverseInv (fold ?f ?out ?st0)"
    proof (rule fold_invariant [where Q = "\<lambda>e. e \<in> set ?out" and P = traverseInv])
      show "\<And>x. x \<in> set ?out \<Longrightarrow> x \<in> set ?out" .
      show "traverseInv ?st0" by (rule i0)
      fix x s assume x: "x \<in> set ?out" and s: "traverseInv s"
      have "traverseInv (s\<lparr> edgesToInclude := edgesToInclude s @ [x] \<rparr>)"
        using s by (simp add: traverseInv_def)
      then show "traverseInv (?f x s)"
        using "1.IH" [OF False x] by blast
    qed
    then show ?thesis using False by simp
  qed
qed

lemma traverse_beyond: "depth > maxDepth \<Longrightarrow> traverse es maxDepth i depth st = st"
  by simp

lemma fold_push:
  "fold (\<lambda>edge s. s\<lparr> edgesToInclude := edgesToInclude s @ [edge] \<rparr>) xs st
     = st\<lparr> edgesToInclude := edgesToInclude st @ xs \<rparr>"
  by (induction xs arbitrary: st) simp_all

lemma traverseFrom_zero:
  "traverseFrom g r 0 = \<lparr> visited = [r], nodesToInclude = [r],
       edgesToInclude = filter (\<lambda>e. efrom e = r) (edges g) \<rparr>"
  by (simp add: traverseFrom_def setAdd_def fold_push)

lemma filterByDepth_zero:
  "nodes (filterByDepth g r 0) = filter (\<lambda>n. nid n = r) (nodes g)"
  "edges (filterByDepth g r 0) = filter (\<lambda>e. efrom e = r) (edges g)"
  by (simp_all add: filterByDepth_def traverseFrom_zero)

lemma filter_length_card:
  assumes "distinct (map f xs)"
  shows "length (filter (\<lambda>x. f x \<in> S) xs) = card (f ` set xs \<inter> S)"
proof -
  have d: "distinct (map f (filter (\<lambda>x. f x \<in> S) xs))"
    using assms by (rule distinct_map_filter)
  have "length (filter (\<lambda>x. f x \<in> S) xs) = length (map f (filter (\<lambda>x. f x \<in> S) xs))" by simp
  also have "\<dots> = card (set (map f (filter (\<lambda>x. f x \<in> S) xs)))"
    using d by (simp only: distinct_card)
  also have "set (map f (filter (\<lambda>x. f x \<in> S) xs)) = f ` set xs \<inter> S" by auto
  finally show ?thesis .
qed

text \<open>
  C2. With \<open>maxDepth = 0\<close> the node list is the root alone, but the edge list is not
  empty: each outgoing edge of the root is collected before the depth of its target is
  tested. On the graph with the edge from \<open>a\<close> to \<open>b\<close> the result keeps that edge.
\<close>

theorem filterByDepth_zero_keeps_edges:
  "nodes (filterByDepth pairGraph ''a'' 0) = [sampleNode ''a'' ''/ws/a.ts'']
   \<and> edges (filterByDepth pairGraph ''a'' 0) = [sampleEdge ''a'' ''b'']"
  by (simp add: filterByDepth_zero pairGraph_def sampleGraph_def sampleNode_def sampleEdge_def)

text \<open>
  C3. Raising \<open>maxDepth\<close> from 2 to 3 on \<open>detourGraph\<close> lowers the node count from 5 to 4
  and the edge count from 6 to 5: with the larger bound \<open>b\<close> is first reached through the
  long path at depth 3, marked visited there, and its successors are never expanded.
\<close>

theorem filterByDepth_not_monotone:
  "length (nodes (filterByDepth detourGraph ''r'' 2)) = 5
   \<and> length (edges (filterByDepth detourGraph ''r'' 2)) = 6
   \<and> length (nodes (filterByDepth detourGraph ''r'' 3)) = 4
   \<and> length (edges (filterByDepth detourGraph ''r'' 3)) = 5"
  by (simp add: filterByDepth_def traverseFrom_def detourGraph_def sampleGraph_def
        sampleNode_def sampleEdge_def setAdd_def)

lemma traverseFrom_inv: "traverseInv (traverseFrom g r d)"
  unfolding traverseFrom_def by (rule traverse_inv) (simp add: traverseInv_def)

lemma filterByDepth_count:
  "totalNodes (metadata (filterByDepth g r d)) = card (set (visited (traverseFrom g r d)))"
  using traverseFrom_inv [of g r d]
  by (simp add: filterByDepth_def Let_def traverseInv_def distinct_card)

lemma filterByDepth_nodes_card:
  assumes "distinct (map nid (nodes g))"
  shows "length (nodes (filterByDepth g r d))
           = card (nid ` set (nodes g) \<inter> set (visited (traverseFrom g r d)))"
  using traverseFrom_inv [of g r d] filter_length_card [OF assms]
  by (simp add: filterByDepth_def Let_def traverseInv_def)

text \<open>
  C10, as amended. \<open>totalNodes\<close> of the result is the number of distinct ids visited by
  the traversal. When the node ids of the graph are pairwise distinct, the returned node
  list is never longer than \<open>totalNodes\<close>, and it is strictly shorter whenever a returned
  edge has a target that was itself visited (reached at a depth of at most \<open>maxDepth\<close>)
  and that no node of the graph has as its id. A returned edge whose target id has no
  node in the graph has no node in the returned node list either.
\<close>

theorem filterByDepth_totalNodes:
  "totalNodes (metadata (filterByDepth g r d)) = card (set (visited (traverseFrom g r d)))
   \<and> (distinct (map nid (nodes g)) \<longrightarrow>
        length (nodes (filterByDepth g r d)) \<le> totalNodes (metadata (filterByDepth g r d)))
   \<and> (distinct (map nid (nodes g)) \<and> e \<in> set (edges (filterByDepth g r d))
        \<and> eto e \<in> set (visited (traverseFrom g r d)) \<and> eto e \<notin> nid ` set (nodes g) \<longrightarrow>
        length (nodes (filterByDepth g r d)) < totalNodes (metadata (filterByDepth g r d)))
   \<and> (e \<in> set (edges (filterByDepth g r d)) \<and> eto e \<notin> nid ` set (nodes g) \<longrightarrow>
        eto e \<notin> nid ` set (nodes (filterByDepth g r d)))"
proof -
  let ?V = "set (visited (traverseFrom g r d))"
  let ?N = "nid ` set (nodes g)"
  have le: "card (?N \<inter> ?V) \<le> card ?V"
    by (rule card_mono) auto
  have lt: "card (?N \<inter> ?V) < card ?V" if "x \<in> ?V" "x \<notin> ?N" for x
  proof (rule psubset_card_mono)
    show "finite ?V" by simp
    show "?N \<inter> ?V \<subset> ?V" using that by auto
  qed
  have sub: "nid ` set (nodes (filterByDepth g r d)) \<subseteq> ?N"
    by (auto simp: filterByDepth_def Let_def)
  show ?thesis
    using le lt [of "eto e"] sub
    by (auto simp: filterByDepth_count filterByDepth_nodes_card)
qed

theorem filterByDepth_totalNodes_witness:
  "distinct (map nid (nodes danglingGraph))
   \<and> sampleEdge ''r'' ''x'' \<in> set (edges (filterByDepth danglingGraph ''r'' 1))
   \<and> eto (sampleEdge ''r'' ''x'') \<in> set (visited (traverseFrom danglingGraph ''r'' 1))
   \<and> eto (sampleEdge ''r'' ''x'') \<notin> nid ` set (nodes danglingGraph)
   \<and> length (nodes (filterByDepth danglingGraph ''r'' 1)) = 1
   \<and> totalNodes (metadata (filterByDepth danglingGraph ''r'' 1)) = 2
   \<and> length (nodes (filterByDepth danglingGraph ''r'' 1))
        < totalNodes (metadata (filterByDepth danglingGraph ''r'' 1))"
  using filterByDepth_totalNodes [of danglingGraph "''r''" 1 "sampleEdge ''r'' ''x''"]
  by (simp add: filterByDepth_def traverseFrom_def danglingGraph_def sampleGraph_def
        sampleNode_def sampleEdge_def setAdd_def)

text \<open>
  C10 as stated fails at the depth bound: with \<open>maxDepth = 0\<close> the edge from \<open>r\<close> to the
  unknown id \<open>x\<close> is returned, yet \<open>x\<close> is never visited, and \<open>totalNodes\<close> equals the
  returned node count.
\<close>

theorem filterByDepth_totalNodes_counterexample:
  "sampleEdge ''r'' ''x'' \<in> set (edges (filterByDepth danglingGraph ''r'' 0))
   \<and> eto (sampleEdge ''r'' ''x'') \<notin> nid ` set (nodes danglingGraph)
   \<and> totalNodes (metadata (filterByDepth danglingGraph ''r'' 0)) = 1
   \<and> length (nodes (filterByDepth danglingGraph ''r'' 0)) = 1
   \<and> \<not> (length (nodes (filterByDepth danglingGraph ''r'' 0))
          < totalNodes (metadata (filterByDepth danglingGraph ''r'' 0)))"
  by (simp add: filterByDepth_def traverseFrom_def danglingGraph_def sampleGraph_def
        sampleNode_def sampleEdge_def setAdd_def)

section \<open>Properties of entry-point selection\<close>

lemma findIndex_None: "findIndex P xs = None \<longleftrightarrow> (\<forall>x \<in> set xs. \<not> P x)"
  by (induction xs) auto

lemma findIndex_Some:
  "findIndex P xs = Some i \<Longrightarrow> i < length xs \<and> P (xs ! i) \<and> (\<forall>j < i. \<not> P (xs ! j))"
proof (induction xs arbitrary: i)
  case Nil
  then show ?case by simp
next
  case (Cons x xs)
  show ?case
  proof (cases "P x")
    case True
    with Cons.prems show ?thesis by simp
  next
    case False
    with Cons.prems obtain k where k: "findIndex P xs = Some k" "i = Suc k" by auto
    from Cons.IH [OF k(1)] False k(2) show ?thesis
      by (auto simp: less_Suc_eq_0_disj)
  qed
qed

lemma markByPatterns_None:
  "markByPatterns ps eps = None \<longleftrightarrow> (\<forall>p \<in> set ps. \<forall>ep \<in> set eps. \<not> p (ep_filePath ep))"
proof (induction ps)
  case Nil
  then show ?case by simp
next
  case (Cons p ps)
  show ?case
  proof (cases "findIndex (\<lambda>ep. p (ep_filePath ep)) eps")
    case None
    then have "\<forall>ep \<in> set eps. \<not> p (ep_filePath ep)" by (simp add: findIndex_None)
    with None Cons.IH show ?thesis by simp
  next
    case (Some i)
    from findIndex_Some [OF Some] have "\<exists>ep \<in> set eps. p (ep_filePath ep)"
      using nth_mem by blast
    with Some show ?thesis by auto
  qed
qed

lemma markByPatterns_Some:
  assumes "markByPatterns ps eps = Some marked"
  shows "\<exists>k i. k < length ps \<and> (\<forall>j < k. \<forall>ep \<in> set eps. \<not> (ps ! j) (ep_filePath ep))
           \<and> findIndex (\<lambda>ep. (ps ! k) (ep_filePath ep)) eps = Some i \<and> marked = markAt i 100 eps"
  using assms
proof (induction ps)
  case Nil
  then show ?case by simp
next
  case (Cons p ps)
  show ?case
  proof (cases "findIndex (\<lambda>ep. p (ep_filePath ep)) eps")
    case None
    with Cons.prems have "markByPatterns ps eps = Some marked" by simp
    from Cons.IH [OF this] obtain k i where
      k: "k < length ps" "\<forall>j < k. \<forall>ep \<in> set eps. \<not> (ps ! j) (ep_filePath ep)"
         "findIndex (\<lambda>ep. (ps ! k) (ep_filePath ep)) eps = Some i" "marked = markAt i 100 eps"
      by blast
    from None have n: "\<forall>ep \<in> set eps. \<not> p (ep_filePath ep)" by (simp add: findIndex_None)
    have "\<forall>j < Suc k. \<forall>ep \<in> set eps. \<not> ((p # ps) ! j) (ep_filePath ep)"
      using k(2) n by (auto simp: less_Suc_eq_0_disj)
    with k show ?thesis
      by (intro exI [of _ "Suc k"] exI [of _ i]) simp
  next
    case (Some i)
    with Cons.prems have "marked = markAt i 100 eps" by simp
    with Some show ?thesis
      by (intro exI [of _ 0] exI [of _ i]) simp
  qed
qed

text \<open>
  The ordered chain of \<open>markPrimaryEntryPoint\<close>: the first React pattern with a match
  decides; without one the first Java main candidate; without one the first Python
  pattern with a match; without one the head of the list, whose score is not raised.
\<close>

lemma markPrimaryEntryPoint_react:
  assumes "k < length reactPrimaryPatterns"
    and "\<forall>j < k. \<forall>ep \<in> set eps. \<not> (reactPrimaryPatterns ! j) (ep_filePath ep)"
    and "findIndex (\<lambda>ep. (reactPrimaryPatterns ! k) (ep_filePath ep)) eps = Some i"
  shows "markPrimaryEntryPoint eps = markAt i 100 eps"
proof -
  from assms(3) have ne: "markByPatterns reactPrimaryPatterns eps \<noteq> None"
    using assms(1) findIndex_Some [OF assms(3)]
    by (auto simp: markByPatterns_None intro!: bexI [of _ "reactPrimaryPatterns ! k"] bexI [of _ "eps ! i"])
  then obtain marked where m: "markByPatterns reactPrimaryPatterns eps = Some marked" by auto
  from markByPatterns_Some [OF m] obtain k' i' where
    k': "k' < length reactPrimaryPatterns"
        "\<forall>j < k'. \<forall>ep \<in> set eps. \<not> (reactPrimaryPatterns ! j) (ep_filePath ep)"
        "findIndex (\<lambda>ep. (reactPrimaryPatterns ! k') (ep_filePath ep)) eps = Some i'"
        "marked = markAt i' 100 eps"
    by blast
  have "k' = k"
  proof (rule ccontr)
    assume "k' \<noteq> k"
    then consider "k' < k" | "k < k'" by linarith
    then show False
    proof cases
      case 1
      with assms(2) have "\<forall>ep \<in> set eps. \<not> (reactPrimaryPatterns ! k') (ep_filePath ep)" by blast
      with findIndex_Some [OF k'(3)] show False by auto
    next
      case 2
      with k'(2) have "\<forall>ep \<in> set eps. \<not> (reactPrimaryPatterns ! k) (ep_filePath ep)" by blast
      with findIndex_Some [OF assms(3)] show False by auto
    qed
  qed
  with k'(3) assms(3) have "i' = i" by simp
  with m k'(4) show ?thesis by (simp add: markPrimaryEntryPoint_def)
qed

lemma markPrimaryEntryPoint_java:
  assumes "\<forall>p \<in> set reactPrimaryPatterns. \<forall>ep \<in> set eps. \<not> p (ep_filePath ep)"
    and "findIndex (\<lambda>ep. ep_type ep = EntryMain \<and> endsWith (ep_filePath ep) ''.java'') eps = Some i"
  shows "markPrimaryEntryPoint eps = markAt i 100 eps"
  using assms by (simp add: markPrimaryEntryPoint_def markByPatterns_None [THEN iffD2])

lemma markByPatterns_first:
  assumes "k < length ps"
    and "\<forall>j < k. \<forall>ep \<in> set eps. \<not> (ps ! j) (ep_filePath ep)"
    and "findIndex (\<lambda>ep. (ps ! k) (ep_filePath ep)) eps = Some i"
  shows "markByPatterns ps eps = Some (markAt i 100 eps)"
  using assms
proof (induction ps arbitrary: k)
  case Nil
  then show ?case by simp
next
  case (Cons p ps)
  show ?case
  proof (cases k)
    case 0
    with Cons.prems(3) show ?thesis by simp
  next
    case (Suc k')
    with Cons.prems(2) have "\<forall>ep \<in> set eps. \<not> p (ep_filePath ep)" by fastforce
    then have n: "findIndex (\<lambda>ep. p (ep_filePath ep)) eps = None" by (simp add: findIndex_None)
    have "markByPatterns ps eps = Some (markAt i 100 eps)"
    proof (rule Cons.IH)
      show "k' < length ps" using Cons.prems(1) Suc by simp
      show "\<forall>j < k'. \<forall>ep \<in> set eps. \<not> (ps ! j) (ep_filePath ep)"
        using Cons.prems(2) Suc by fastforce
      show "findIndex (\<lambda>ep. (ps ! k') (ep_filePath ep)) eps = Some i"
        using Cons.prems(3) Suc by simp
    qed
    with n show ?thesis by simp
  qed
qed

text \<open>
  The Python step goes through the patterns in their listed order: the first pattern that
  some candidate matches decides, and the first candidate that matches that pattern is
  marked, also when a candidate earlier in the list matches a later pattern.
\<close>

lemma markPrimaryEntryPoint_python:
  assumes "\<forall>p \<in> set reactPrimaryPatterns. \<forall>ep \<in> set eps. \<not> p (ep_filePath ep)"
    and "\<forall>ep \<in> set eps. \<not> (ep_type ep = EntryMain \<and> endsWith (ep_filePath ep) ''.java'')"
    and "k < length pythonPrimaryPatterns"
    and "\<forall>j < k. \<forall>ep \<in> set eps. \<not> (pythonPrimaryPatterns ! j) (ep_filePath ep)"
    and "findIndex (\<lambda>ep. (pythonPrimaryPatterns ! k) (ep_filePath ep)) eps = Some i"
  shows "markPrimaryEntryPoint eps = markAt i 100 eps"
  using assms(1,2) markByPatterns_first [OF assms(3,4,5)]
  by (simp add: markPrimaryEntryPoint_def markByPatterns_None [THEN iffD2] findIndex_None [THEN iffD2])

lemma markPrimaryEntryPoint_python_order:
  "markPrimaryEntryPoint [candidate ''/ws/manage.py'' EntryConfig 11, candidate ''/ws/app.py'' EntryApp 10]
     = [candidate ''/ws/manage.py'' EntryConfig 11,
        (candidate ''/ws/app.py'' EntryApp 110)\<lparr> ep_isPrimaryEntry := Some True \<rparr>]"
  by code_simp

lemma markPrimaryEntryPoint_fallback:
  assumes "\<forall>p \<in> set reactPrimaryPatterns. \<forall>ep \<in> set eps. \<not> p (ep_filePath ep)"
    and "\<forall>ep \<in> set eps. \<not> (ep_type ep = EntryMain \<and> endsWith (ep_filePath ep) ''.java'')"
    and "\<forall>p \<in> set pythonPrimaryPatterns. \<forall>ep \<in> set eps. \<not> p (ep_filePath ep)"
  shows "markPrimaryEntryPoint eps = (if eps = [] then [] else markAt 0 0 eps)"
  using assms
  by (simp add: markPrimaryEntryPoint_def markByPatterns_None [THEN iffD2] findIndex_None [THEN iffD2])

lemma markPrimaryEntryPoint_marks_one:
  assumes "eps \<noteq> []"
  shows "\<exists>i boost. i < length eps \<and> markPrimaryEntryPoint eps = markAt i boost eps"
proof (cases "markByPatterns reactPrimaryPatterns eps")
  case (Some marked)
  from markByPatterns_Some [OF Some] obtain k i where
    "findIndex (\<lambda>ep. (reactPrimaryPatterns ! k) (ep_filePath ep)) eps = Some i" "marked = markAt i 100 eps"
    by blast
  with Some findIndex_Some show ?thesis
    by (auto simp: markPrimaryEntryPoint_def)
next
  case None
  note r = None
  show ?thesis
  proof (cases "findIndex (\<lambda>ep. ep_type ep = EntryMain \<and> endsWith (ep_filePath ep) ''.java'') eps")
    case (Some i)
    with r findIndex_Some [OF Some] show ?thesis
      by (auto simp: markPrimaryEntryPoint_def)
  next
    case None
    note j = None
    show ?thesis
    proof (cases "markByPatterns pythonPrimaryPatterns eps")
      case (Some marked)
      from markByPatterns_Some [OF Some] obtain k i where
        "findIndex (\<lambda>ep. (pythonPrimaryPatterns ! k) (ep_filePath ep)) eps = Some i" "marked = markAt i 100 eps"
        by blast
      with Some r j findIndex_Some show ?thesis
        by (auto simp: markPrimaryEntryPoint_def)
    next
      case None
      with r j assms show ?thesis
        by (auto simp: markPrimaryEntryPoint_def)
    qed
  qed
qed

lemma filter_update_single:
  "\<forall>x \<in> set xs. \<not> P x \<Longrightarrow> i < length xs \<Longrightarrow> P y \<Longrightarrow> filter P (xs[i := y]) = [y]"
proof (induction xs arbitrary: i)
  case Nil
  then show ?case by simp
next
  case (Cons x xs)
  then show ?case by (cases i) auto
qed

text \<open>At most one candidate is primary, and exactly one when there is a candidate.\<close>

lemma markPrimaryEntryPoint_single_primary:
  assumes "eps \<noteq> []" and "\<forall>ep \<in> set eps. \<not> isPrimary ep"
  shows "length (filter isPrimary (markPrimaryEntryPoint eps)) = 1"
proof -
  from markPrimaryEntryPoint_marks_one [OF assms(1)] obtain i boost where
    i: "i < length eps" "markPrimaryEntryPoint eps = markAt i boost eps" by blast
  have "filter isPrimary (markAt i boost eps)
          = [(eps ! i)\<lparr> score := score (eps ! i) + boost, ep_isPrimaryEntry := Some True \<rparr>]"
    unfolding markAt_def
    by (rule filter_update_single [OF assms(2) i(1)]) (simp add: isPrimary_def)
  with i(2) show ?thesis by simp
qed

text \<open>
  The scenario of the specification: with \<open>src/index.tsx\<close> and a Java main class in the
  workspace, \<open>src/index.tsx\<close> is the primary entry and comes first.
\<close>

lemma rankEntryPoints_mixed:
  "rankEntryPoints mixedWorkspace =
     [(candidate ''/ws/src/index.tsx'' EntryIndex 117)\<lparr> ep_isPrimaryEntry := Some True \<rparr>,
      candidate ''/ws/app/Main.java'' EntryMain 12]"
  by code_simp

text \<open>
  C1. The third and fourth React patterns are commented as the root-level \<open>index\<close> and
  \<open>main\<close> files, but they accept such a file in any directory. With the nested
  \<open>/ws/src/components/index.ts\<close> and the Java main class \<open>/ws/app/Main.java\<close> as the
  candidates, no candidate is \<open>src/index.*\<close>, \<open>src/main.*\<close> or a root-level \<open>index.*\<close> or
  \<open>main.*\<close>, so the chain of the claim makes the Java class primary; the code marks the
  nested \<open>index.ts\<close> and raises its score.
\<close>

theorem markPrimaryEntryPoint_nested_index:
  "markPrimaryEntryPoint nestedIndexWorkspace =
     [\<lparr> ep_filePath = ''/ws/src/components/index.ts'', ep_type = EntryIndex, score = 112,
        ep_isPrimaryEntry = Some True \<rparr>,
      \<lparr> ep_filePath = ''/ws/app/Main.java'', ep_type = EntryMain, score = 12,
        ep_isPrimaryEntry = None \<rparr>]"
  by code_simp

section \<open>Properties of import resolution\<close>

lemma tryExtensions_find:
  "tryExtensions fileExists resolvedPath exts = List.find fileExists (map (\<lambda>ext. resolvedPath @ ext) exts)"
  by (induction exts) simp_all

lemma find_append_literal:
  "List.find P (xs @ [y]) = (case List.find P xs of Some x \<Rightarrow> Some x | None \<Rightarrow> if P y then Some y else None)"
  by (induction xs) simp_all

text \<open>
  C5, as amended. For a relative specifier (one that starts with \<open>.\<close> or \<open>/\<close>) the
  candidates are tried in this order: the resolved path with \<open>.ts\<close>, \<open>.tsx\<close>, \<open>.js\<close>,
  \<open>.jsx\<close>, \<open>.java\<close> appended, then with \<open>/index.ts\<close>, \<open>/index.tsx\<close>, \<open>/index.js\<close>,
  \<open>/index.jsx\<close> appended, and the literal resolved path last. The result is the first
  candidate that exists, and \<open>null\<close> when none exists. Any other specifier gives \<open>null\<close>.
\<close>

theorem resolveImportPath_order:
  "(startsWith importSource ''.'' \<or> startsWith importSource ''/'' \<longrightarrow>
      resolveImportPath fileExists dirname resolve sourceFile importSource root
        = List.find fileExists
            (map (\<lambda>ext. resolve (dirname sourceFile) importSource @ ext)
                 [''.ts'', ''.tsx'', ''.js'', ''.jsx'', ''.java'',
                  ''/index.ts'', ''/index.tsx'', ''/index.js'', ''/index.jsx'']
             @ [resolve (dirname sourceFile) importSource]))
   \<and> (\<not> startsWith importSource ''.'' \<and> \<not> startsWith importSource ''/'' \<longrightarrow>
      resolveImportPath fileExists dirname resolve sourceFile importSource root = None)"
proof -
  have "List.find fileExists
            (map (\<lambda>ext. resolve (dirname sourceFile) importSource @ ext) extensions
             @ [resolve (dirname sourceFile) importSource])
        = (case tryExtensions fileExists (resolve (dirname sourceFile) importSource) extensions of
             Some testPath \<Rightarrow> Some testPath
           | None \<Rightarrow> if fileExists (resolve (dirname sourceFile) importSource)
                     then Some (resolve (dirname sourceFile) importSource) else None)"
    by (simp only: find_append_literal tryExtensions_find)
  then show ?thesis
    by (auto simp: resolveImportPath_def Let_def extensions_def)
qed

theorem resolveImportPath_order_witness:
  "startsWith ''./utils'' ''.''
   \<and> posixResolve (posixDirname ''/ws/src/app.ts'') ''./utils'' = ''/ws/src/utils''
   \<and> resolveImportPath utilsFiles posixDirname posixResolve ''/ws/src/app.ts'' ''./utils'' ''/ws''
       = Some ''/ws/src/utils.ts''
   \<and> \<not> startsWith ''react'' ''.'' \<and> \<not> startsWith ''react'' ''/''
   \<and> resolveImportPath utilsFiles posixDirname posixResolve ''/ws/src/app.ts'' ''react'' ''/ws'' = None"
proof -
  have p: "posixResolve (posixDirname ''/ws/src/app.ts'') ''./utils'' = ''/ws/src/utils''"
    by code_simp
  have s: "startsWith ''./utils'' ''.''" "\<not> startsWith ''react'' ''.''" "\<not> startsWith ''react'' ''/''"
    by simp_all
  from resolveImportPath_order [of "''./utils''" utilsFiles posixDirname posixResolve "''/ws/src/app.ts''" "''/ws''"]
  have a: "resolveImportPath utilsFiles posixDirname posixResolve ''/ws/src/app.ts'' ''./utils'' ''/ws''
       = Some ''/ws/src/utils.ts''"
    using s(1) by (simp add: p utilsFiles_def)
  from resolveImportPath_order [of "''react''" utilsFiles posixDirname posixResolve "''/ws/src/app.ts''" "''/ws''"]
  have b: "resolveImportPath utilsFiles posixDirname posixResolve ''/ws/src/app.ts'' ''react'' ''/ws'' = None"
    using s(2,3) by simp
  from p s a b show ?thesis by simp
qed

text \<open>
  C5 as stated puts the literal path first. Where a directory \<open>utils\<close> lies beside the
  file \<open>utils.ts\<close>, the literal path of the import \<open>./utils\<close> exists, and the result is
  nevertheless \<open>utils.ts\<close>.
\<close>

theorem resolveImportPath_literal_counterexample:
  "posixResolve (posixDirname ''/ws/src/app.ts'') ''./utils'' = ''/ws/src/utils''
   \<and> utilsFiles ''/ws/src/utils''
   \<and> resolveImportPath utilsFiles posixDirname posixResolve ''/ws/src/app.ts'' ''./utils'' ''/ws''
       = Some ''/ws/src/utils.ts''
   \<and> resolveImportPath utilsFiles posixDirname posixResolve ''/ws/src/app.ts'' ''./utils'' ''/ws''
       \<noteq> Some ''/ws/src/utils''"
  by code_simp

section \<open>Properties of the parsers\<close>

lemma javaClassStep_edges:
  "set (pedges acc) \<subseteq> set (pedges (javaClassStep fsPath lines cls methods acc))"
  by (auto simp: javaClassStep_def)

lemma javaClassesLoop_keeps:
  "javaClassesLoop sc fsPath lines classes acc = Inr r \<Longrightarrow> set (pedges acc) \<subseteq> set (pedges r)"
proof (induction classes arbitrary: acc)
  case Nil
  then show ?case by simp
next
  case (Cons cls rest)
  from Cons.prems obtain methods where
    m: "js_parseMethods sc lines (jc_startLine cls) (jc_endLine cls) (jc_name cls) = Inr methods"
    and r: "javaClassesLoop sc fsPath lines rest (javaClassStep fsPath lines cls methods acc) = Inr r"
    by (auto split: sum.splits)
  from Cons.IH [OF r] javaClassStep_edges [of acc fsPath lines cls methods] show ?case by blast
qed

lemma javaClassesLoop_contains:
  assumes "javaClassesLoop sc fsPath lines classes acc = Inr r"
    and "cls \<in> set classes"
    and "js_parseMethods sc lines (jc_startLine cls) (jc_endLine cls) (jc_name cls) = Inr methods"
    and "method \<in> set methods"
  shows "containsEdge fsPath (jc_name cls) (jm_name method) \<in> set (pedges r)"
  using assms
proof (induction classes arbitrary: acc)
  case Nil
  then show ?case by simp
next
  case (Cons c rest)
  from Cons.prems(1) obtain ms where
    m: "js_parseMethods sc lines (jc_startLine c) (jc_endLine c) (jc_name c) = Inr ms"
    and r: "javaClassesLoop sc fsPath lines rest (javaClassStep fsPath lines c ms acc) = Inr r"
    by (auto split: sum.splits)
  show ?case
  proof (cases "cls = c")
    case True
    with m Cons.prems(3) have "ms = methods" by simp
    with True Cons.prems(4)
    have "containsEdge fsPath (jc_name cls) (jm_name method)
            \<in> set (pedges (javaClassStep fsPath lines c ms acc))"
      by (auto simp: javaClassStep_def)
    with javaClassesLoop_keeps [OF r] show ?thesis by blast
  next
    case False
    with Cons.prems(2) have "cls \<in> set rest" by simp
    from Cons.IH [OF r this Cons.prems(3) Cons.prems(4)] show ?thesis .
  qed
qed

lemma javaClassStep_fromTo:
  "list_all (fromTo fsPath) (pedges acc) \<Longrightarrow>
   list_all (fromTo fsPath) (pedges (javaClassStep fsPath lines cls methods acc))"
  by (auto simp: javaClassStep_def list_all_iff fromTo_def containsEdge_def extendsEdge_def
        implementsEdge_def split: option.splits)

lemma javaClassesLoop_fromTo:
  "javaClassesLoop sc fsPath lines classes acc = Inr r \<Longrightarrow>
   list_all (fromTo fsPath) (pedges acc) \<Longrightarrow> list_all (fromTo fsPath) (pedges r)"
proof (induction classes arbitrary: acc)
  case Nil
  then show ?case by simp
next
  case (Cons c rest)
  from Cons.prems(1) obtain ms where
    r: "javaClassesLoop sc fsPath lines rest (javaClassStep fsPath lines c ms acc) = Inr r"
    by (auto split: sum.splits)
  from Cons.IH [OF r javaClassStep_fromTo [OF Cons.prems(2)]] show ?case .
qed

lemma fold_interfaces_edges:
  "pedges (fold (javaInterfaceStep fsPath lines) ifaces acc)
     = pedges acc @ concat (map (\<lambda>iface. map (extendsEdge fsPath) (ji_extendsInterfaces iface)) ifaces)"
  by (induction ifaces arbitrary: acc) (simp_all add: javaInterfaceStep_def)

lemma moduleFallback_edges: "pedges (moduleFallback node wanted acc) = pedges acc"
  by (simp add: moduleFallback_def)

lemma javaParseBody_edges:
  assumes "javaParseBody sc fsPath content isEntry = Inr r"
  shows "\<exists>classes afterClasses (ifaces :: JavaInterface list) imps.
           js_parseClasses sc (splitLines content) = Inr classes
         \<and> javaClassesLoop sc fsPath (splitLines content) classes emptyResult = Inr afterClasses
         \<and> pedges r = pedges afterClasses
              @ concat (map (\<lambda>iface. map (extendsEdge fsPath) (ji_extendsInterfaces iface)) ifaces)
              @ map (javaImportEdge fsPath) imps"
proof -
  from assms obtain classes where
    c: "js_parseClasses sc (splitLines content) = Inr classes"
    by (auto simp: javaParseBody_def Let_def split: sum.splits)
  from assms c obtain afterClasses where
    l: "javaClassesLoop sc fsPath (splitLines content) classes emptyResult = Inr afterClasses"
    by (auto simp: javaParseBody_def Let_def split: sum.splits)
  from assms c l obtain ifaces where
    i: "js_parseInterfaces sc (splitLines content) = Inr ifaces"
    by (auto simp: javaParseBody_def Let_def split: sum.splits)
  from assms c l i obtain imps where
    m: "js_importLines sc (splitLines content) = Inr imps"
    by (auto simp: javaParseBody_def Let_def split: sum.splits)
  from assms c l i m have "pedges r = pedges afterClasses
              @ concat (map (\<lambda>iface. map (extendsEdge fsPath) (ji_extendsInterfaces iface)) ifaces)
              @ map (javaImportEdge fsPath) imps"
    by (auto simp: javaParseBody_def Let_def fold_interfaces_edges moduleFallback_edges)
  with c l show ?thesis by blast
qed

lemma javaParse_contains_edges:
  assumes "javaParseBody sc fsPath content isEntry = Inr r"
    and "js_parseClasses sc (splitLines content) = Inr classes"
    and "cls \<in> set classes"
    and "js_parseMethods sc (splitLines content) (jc_startLine cls) (jc_endLine cls) (jc_name cls) = Inr methods"
    and "method \<in> set methods"
  shows "containsEdge fsPath (jc_name cls) (jm_name method) \<in> set (pedges r)"
proof -
  from javaParseBody_edges [OF assms(1)] assms(2)
  obtain afterClasses and ifaces :: "JavaInterface list" and imps where
    l: "javaClassesLoop sc fsPath (splitLines content) classes emptyResult = Inr afterClasses"
    and e: "pedges r = pedges afterClasses
              @ concat (map (\<lambda>iface. map (extendsEdge fsPath) (ji_extendsInterfaces iface)) ifaces)
              @ map (javaImportEdge fsPath) imps"
    by auto
  from javaClassesLoop_contains [OF l assms(3) assms(4) assms(5)] e show ?thesis by simp
qed

lemma javaParse_contains_fromTo:
  assumes "javaParse sc fsPath content isEntry = Inr r"
  shows "list_all (fromTo fsPath) (pedges r)"
proof (cases "javaParseBody sc fsPath content isEntry")
  case (Inl error)
  with assms show ?thesis by (auto simp: javaParse_def tryCatch_def emptyResult_def)
next
  case (Inr body)
  with assms have rb: "r = body" by (simp add: javaParse_def tryCatch_def)
  from javaParseBody_edges [OF Inr]
  obtain classes afterClasses and ifaces :: "JavaInterface list" and imps where
    l: "javaClassesLoop sc fsPath (splitLines content) classes emptyResult = Inr afterClasses"
    and e: "pedges body = pedges afterClasses
              @ concat (map (\<lambda>iface. map (extendsEdge fsPath) (ji_extendsInterfaces iface)) ifaces)
              @ map (javaImportEdge fsPath) imps"
    by auto
  have "list_all (fromTo fsPath) (pedges afterClasses)"
    by (rule javaClassesLoop_fromTo [OF l]) (simp add: emptyResult_def)
  with e rb show ?thesis
    by (auto simp: list_all_iff fromTo_def extendsEdge_def javaImportEdge_def)
qed

lemma fold_pythonClassStep_edges:
  "pedges (fold (pythonClassStep fsPath lines) classes acc)
     = pedges acc @ concat (map (\<lambda>cls.
         map (\<lambda>method. containsEdge fsPath (pc_name cls) (pm_name method)) (pc_methods cls)
         @ map (extendsEdge fsPath) (pc_bases cls)) classes)"
  by (induction classes arbitrary: acc) (simp_all add: pythonClassStep_def)

lemma pythonParseBody_edges:
  assumes "pythonParseBody sc fsPath content isEntry = Inr r"
  shows "\<exists>classes imps.
           ps_parseClasses sc (splitLines content) = Inr classes
         \<and> pedges r = concat (map (\<lambda>cls.
               map (\<lambda>method. containsEdge fsPath (pc_name cls) (pm_name method)) (pc_methods cls)
               @ map (extendsEdge fsPath) (pc_bases cls)) classes)
              @ map (pythonImportEdge fsPath) imps"
proof -
  from assms obtain classes where
    c: "ps_parseClasses sc (splitLines content) = Inr classes"
    by (auto simp: pythonParseBody_def Let_def split: sum.splits)
  from assms c obtain funcs where
    f: "ps_parseStandaloneFunctions sc (splitLines content) classes = Inr funcs"
    by (auto simp: pythonParseBody_def Let_def split: sum.splits)
  from assms c f obtain imps where
    m: "ps_importLines sc (splitLines content) = Inr imps"
    by (auto simp: pythonParseBody_def Let_def split: sum.splits)
  from assms c f m have "pedges r = concat (map (\<lambda>cls.
               map (\<lambda>method. containsEdge fsPath (pc_name cls) (pm_name method)) (pc_methods cls)
               @ map (extendsEdge fsPath) (pc_bases cls)) classes)
              @ map (pythonImportEdge fsPath) imps"
    by (auto simp: pythonParseBody_def Let_def fold_pythonClassStep_edges moduleFallback_edges
          emptyResult_def)
  with c show ?thesis by blast
qed

lemma pythonParse_contains_edges:
  assumes "pythonParseBody sc fsPath content isEntry = Inr r"
    and "ps_parseClasses sc (splitLines content) = Inr classes"
    and "cls \<in> set classes"
    and "method \<in> set (pc_methods cls)"
  shows "containsEdge fsPath (pc_name cls) (pm_name method) \<in> set (pedges r)"
proof -
  from pythonParseBody_edges [OF assms(1)] assms(2) obtain imps where
    "pedges r = concat (map (\<lambda>cls.
               map (\<lambda>method. containsEdge fsPath (pc_name cls) (pm_name method)) (pc_methods cls)
               @ map (extendsEdge fsPath) (pc_bases cls)) classes)
              @ map (pythonImportEdge fsPath) imps"
    by auto
  with assms(3) assms(4) show ?thesis by auto
qed

lemma pythonParse_contains_fromTo:
  assumes "pythonParse sc fsPath content isEntry = Inr r"
  shows "list_all (fromTo fsPath) (pedges r)"
proof (cases "pythonParseBody sc fsPath content isEntry")
  case (Inl error)
  with assms show ?thesis by (auto simp: pythonParse_def tryCatch_def emptyResult_def)
next
  case (Inr body)
  with assms have rb: "r = body" by (simp add: pythonParse_def tryCatch_def)
  from pythonParseBody_edges [OF Inr] rb show ?thesis
    by (auto simp: list_all_iff fromTo_def containsEdge_def extendsEdge_def pythonImportEdge_def)
qed

lemma tryCatch_body: "body = Inr r \<Longrightarrow> tryCatch body = Inr r"
  by (simp add: tryCatch_def)

text \<open>Of the edges a parser pushes, only those built by \<open>containsEdge\<close> have the type \<open>contains\<close>.\<close>

lemma filter_contains_map:
  "filter (\<lambda>e. etype e = Contains) (map (\<lambda>m. containsEdge fsPath c (f m)) ms)
     = map (\<lambda>m. containsEdge fsPath c (f m)) ms"
  by (induction ms) (simp_all add: containsEdge_def)

lemma filter_contains_extends:
  "filter (\<lambda>e. etype e = Contains) (map (extendsEdge fsPath) xs) = []"
  by (induction xs) (simp_all add: extendsEdge_def)

lemma filter_contains_implements:
  "filter (\<lambda>e. etype e = Contains) (map (implementsEdge fsPath) xs) = []"
  by (induction xs) (simp_all add: implementsEdge_def)

lemma filter_contains_java_imports:
  "filter (\<lambda>e. etype e = Contains) (map (javaImportEdge fsPath) imps) = []"
  by (induction imps) (simp_all add: javaImportEdge_def)

lemma filter_contains_python_imports:
  "filter (\<lambda>e. etype e = Contains) (map (pythonImportEdge fsPath) imps) = []"
  by (induction imps) (simp_all add: pythonImportEdge_def)

lemma filter_contains_interfaces:
  "filter (\<lambda>e. etype e = Contains)
     (concat (map (\<lambda>iface. map (extendsEdge fsPath) (ji_extendsInterfaces iface)) ifaces)) = []"
  by (induction ifaces) (simp_all add: filter_contains_extends)

lemma javaClassStep_contains:
  "filter (\<lambda>e. etype e = Contains) (pedges (javaClassStep fsPath lines cls methods acc))
     = filter (\<lambda>e. etype e = Contains) (pedges acc)
       @ map (\<lambda>m. containsEdge fsPath (jc_name cls) (jm_name m)) methods"
  by (simp add: javaClassStep_def filter_contains_map filter_contains_extends
        filter_contains_implements extendsEdge_def split: option.splits)

lemma javaClassesLoop_contains_exact:
  "javaClassesLoop sc fsPath lines classes acc = Inr r \<Longrightarrow>
   filter (\<lambda>e. etype e = Contains) (pedges r)
     = filter (\<lambda>e. etype e = Contains) (pedges acc)
       @ concat (map (\<lambda>cls. map (\<lambda>m. containsEdge fsPath (jc_name cls) (jm_name m))
                              (scannedMethods sc lines cls)) classes)"
proof (induction classes arbitrary: acc)
  case Nil
  then show ?case by simp
next
  case (Cons c rest)
  from Cons.prems obtain ms where
    m: "js_parseMethods sc lines (jc_startLine c) (jc_endLine c) (jc_name c) = Inr ms"
    and r: "javaClassesLoop sc fsPath lines rest (javaClassStep fsPath lines c ms acc) = Inr r"
    by (auto split: sum.splits)
  from m have s: "scannedMethods sc lines c = ms" by (simp add: scannedMethods_def)
  from Cons.IH [OF r] show ?case
    by (simp add: javaClassStep_contains s)
qed

lemma javaParseBody_contains_exact:
  assumes "javaParseBody sc fsPath content isEntry = Inr r"
    and "js_parseClasses sc (splitLines content) = Inr classes"
  shows "filter (\<lambda>e. etype e = Contains) (pedges r)
     = concat (map (\<lambda>cls. map (\<lambda>m. containsEdge fsPath (jc_name cls) (jm_name m))
                            (scannedMethods sc (splitLines content) cls)) classes)"
proof -
  from javaParseBody_edges [OF assms(1)] assms(2)
  obtain afterClasses and ifaces :: "JavaInterface list" and imps where
    l: "javaClassesLoop sc fsPath (splitLines content) classes emptyResult = Inr afterClasses"
    and e: "pedges r = pedges afterClasses
              @ concat (map (\<lambda>iface. map (extendsEdge fsPath) (ji_extendsInterfaces iface)) ifaces)
              @ map (javaImportEdge fsPath) imps"
    by auto
  from javaClassesLoop_contains_exact [OF l] e show ?thesis
    by (simp add: emptyResult_def filter_contains_interfaces filter_contains_java_imports)
qed

lemma pythonClasses_contains:
  "filter (\<lambda>e. etype e = Contains)
     (concat (map (\<lambda>cls.
         map (\<lambda>method. containsEdge fsPath (pc_name cls) (pm_name method)) (pc_methods cls)
         @ map (extendsEdge fsPath) (pc_bases cls)) classes))
   = concat (map (\<lambda>cls. map (\<lambda>method. containsEdge fsPath (pc_name cls) (pm_name method))
                          (pc_methods cls)) classes)"
  by (induction classes) (simp_all add: filter_contains_map filter_contains_extends)

lemma pythonParseBody_contains_exact:
  assumes "pythonParseBody sc fsPath content isEntry = Inr r"
    and "ps_parseClasses sc (splitLines content) = Inr classes"
  shows "filter (\<lambda>e. etype e = Contains) (pedges r)
     = concat (map (\<lambda>cls. map (\<lambda>method. containsEdge fsPath (pc_name cls) (pm_name method))
                            (pc_methods cls)) classes)"
proof -
  from pythonParseBody_edges [OF assms(1)] assms(2) obtain imps where
    "pedges r = concat (map (\<lambda>cls.
               map (\<lambda>method. containsEdge fsPath (pc_name cls) (pm_name method)) (pc_methods cls)
               @ map (extendsEdge fsPath) (pc_bases cls)) classes)
              @ map (pythonImportEdge fsPath) imps"
    by auto
  then show ?thesis
    by (simp add: pythonClasses_contains filter_contains_python_imports)
qed

text \<open>
  C4, as amended. The \<open>contains\<close> edges that the Java and the Python parser emit for a
  file whose parse does not fail are exactly one edge for each method that the parser's
  own scan returns for a class it has found (\<open>parseMethods\<close> of the Java parser, the
  \<open>methods\<close> of a class of the Python parser), in scan order. Each of them has the path
  of the file as its \<open>from\<close> and as its \<open>to\<close>, and the label \<open>Class contains method\<close>. No
  \<open>contains\<close> edge of either parser connects entity keys: the file path is the entity key
  of neither the class nor the method. Which of the methods written in the text the scan
  returns is no part of the statement.
\<close>

theorem contains_edges_carry_file_path:
  "(javaParseBody jsc fsPath content isEntry = Inr jr
      \<and> js_parseClasses jsc (splitLines content) = Inr jclasses \<and> jcls \<in> set jclasses
      \<and> js_parseMethods jsc (splitLines content) (jc_startLine jcls) (jc_endLine jcls) (jc_name jcls)
           = Inr jmethods
      \<and> jmethod \<in> set jmethods
    \<longrightarrow> javaParse jsc fsPath content isEntry = Inr jr
      \<and> \<lparr> efrom = fsPath, eto = fsPath, etype = Contains,
            elabel = Some (jc_name jcls @ '' contains '' @ jm_name jmethod) \<rparr> \<in> set (pedges jr))
   \<and> (pythonParseBody psc fsPath content isEntry = Inr pr
      \<and> ps_parseClasses psc (splitLines content) = Inr pclasses \<and> pcls \<in> set pclasses
      \<and> pmethod \<in> set (pc_methods pcls)
    \<longrightarrow> pythonParse psc fsPath content isEntry = Inr pr
      \<and> \<lparr> efrom = fsPath, eto = fsPath, etype = Contains,
            elabel = Some (pc_name pcls @ '' contains '' @ pm_name pmethod) \<rparr> \<in> set (pedges pr))
   \<and> (javaParseBody jsc fsPath content isEntry = Inr jr
      \<and> js_parseClasses jsc (splitLines content) = Inr jclasses
    \<longrightarrow> filter (\<lambda>e. etype e = Contains) (pedges jr)
        = concat (map (\<lambda>cls. map (\<lambda>m. \<lparr> efrom = fsPath, eto = fsPath, etype = Contains,
                                        elabel = Some (jc_name cls @ '' contains '' @ jm_name m) \<rparr>)
                                (scannedMethods jsc (splitLines content) cls)) jclasses))
   \<and> (pythonParseBody psc fsPath content isEntry = Inr pr
      \<and> ps_parseClasses psc (splitLines content) = Inr pclasses
    \<longrightarrow> filter (\<lambda>e. etype e = Contains) (pedges pr)
        = concat (map (\<lambda>cls. map (\<lambda>m. \<lparr> efrom = fsPath, eto = fsPath, etype = Contains,
                                        elabel = Some (pc_name cls @ '' contains '' @ pm_name m) \<rparr>)
                                (pc_methods cls)) pclasses))
   \<and> ((javaParse jsc fsPath content isEntry = Inr r \<or> pythonParse psc fsPath content isEntry = Inr r)
      \<and> e \<in> set (pedges r) \<and> etype e = Contains
    \<longrightarrow> efrom e = fsPath \<and> eto e = fsPath)
   \<and> nid (javaClassNode jcls fsPath lines) \<noteq> fsPath
   \<and> nid (javaMethodNode jmethod fsPath lines) \<noteq> fsPath
   \<and> nid (pythonClassNode pcls fsPath lines) \<noteq> fsPath
   \<and> nid (pythonMethodNode pmethod (pc_name pcls) fsPath lines) \<noteq> fsPath"
proof -
  have j: "javaParse jsc fsPath content isEntry = Inr jr
      \<and> containsEdge fsPath (jc_name jcls) (jm_name jmethod) \<in> set (pedges jr)"
    if "javaParseBody jsc fsPath content isEntry = Inr jr"
      "js_parseClasses jsc (splitLines content) = Inr jclasses" "jcls \<in> set jclasses"
      "js_parseMethods jsc (splitLines content) (jc_startLine jcls) (jc_endLine jcls) (jc_name jcls)
           = Inr jmethods"
      "jmethod \<in> set jmethods"
    using javaParse_contains_edges [OF that] tryCatch_body [OF that(1)]
    by (simp add: javaParse_def)
  have p: "pythonParse psc fsPath content isEntry = Inr pr
      \<and> containsEdge fsPath (pc_name pcls) (pm_name pmethod) \<in> set (pedges pr)"
    if "pythonParseBody psc fsPath content isEntry = Inr pr"
      "ps_parseClasses psc (splitLines content) = Inr pclasses" "pcls \<in> set pclasses"
      "pmethod \<in> set (pc_methods pcls)"
    using pythonParse_contains_edges [OF that] tryCatch_body [OF that(1)]
    by (simp add: pythonParse_def)
  have jx: "filter (\<lambda>e. etype e = Contains) (pedges jr)
        = concat (map (\<lambda>cls. map (\<lambda>m. containsEdge fsPath (jc_name cls) (jm_name m))
                                (scannedMethods jsc (splitLines content) cls)) jclasses)"
    if "javaParseBody jsc fsPath content isEntry = Inr jr"
      "js_parseClasses jsc (splitLines content) = Inr jclasses"
    using javaParseBody_contains_exact [OF that] .
  have px: "filter (\<lambda>e. etype e = Contains) (pedges pr)
        = concat (map (\<lambda>cls. map (\<lambda>m. containsEdge fsPath (pc_name cls) (pm_name m))
                                (pc_methods cls)) pclasses)"
    if "pythonParseBody psc fsPath content isEntry = Inr pr"
      "ps_parseClasses psc (splitLines content) = Inr pclasses"
    using pythonParseBody_contains_exact [OF that] .
  have f: "efrom e = fsPath \<and> eto e = fsPath"
    if "javaParse jsc fsPath content isEntry = Inr r \<or> pythonParse psc fsPath content isEntry = Inr r"
      "e \<in> set (pedges r)" "etype e = Contains"
    using that javaParse_contains_fromTo [of jsc fsPath content isEntry r]
      pythonParse_contains_fromTo [of psc fsPath content isEntry r]
    by (auto simp: list_all_iff fromTo_def)
  have k: "nid (javaClassNode jcls fsPath lines) \<noteq> fsPath"
    "nid (javaMethodNode jmethod fsPath lines) \<noteq> fsPath"
    "nid (pythonClassNode pcls fsPath lines) \<noteq> fsPath"
    "nid (pythonMethodNode pmethod (pc_name pcls) fsPath lines) \<noteq> fsPath"
    by (simp_all add: javaClassNode_def javaMethodNode_def pythonClassNode_def pythonMethodNode_def)
  from j p jx px f k show ?thesis
    unfolding containsEdge_def by blast
qed

lemma javaParse_foo:
  "javaParseBody fooScanner ''/ws/Foo.java'' fooSource False
     = Inr \<lparr> pnodes = [javaClassNode fooClass ''/ws/Foo.java'' (splitLines fooSource),
                        javaMethodNode barMethod ''/ws/Foo.java'' (splitLines fooSource)],
             pedges = [containsEdge ''/ws/Foo.java'' ''Foo'' ''bar''] \<rparr>"
  by (simp add: javaParseBody_def Let_def fooScanner_def fooClass_def barMethod_def javaClassStep_def
        emptyResult_def moduleFallback_def)

lemma pythonParse_dog:
  "pythonParseBody dogScanner ''/ws/dog.py'' dogSource False
     = Inr \<lparr> pnodes = [pythonClassNode dogClass ''/ws/dog.py'' (splitLines dogSource),
                        pythonMethodNode speakMethod ''Dog'' ''/ws/dog.py'' (splitLines dogSource)],
             pedges = [containsEdge ''/ws/dog.py'' ''Dog'' ''speak'',
                       extendsEdge ''/ws/dog.py'' ''Animal''] \<rparr>"
  by (simp add: pythonParseBody_def Let_def dogScanner_def dogClass_def speakMethod_def pythonClassStep_def
        emptyResult_def moduleFallback_def)

theorem contains_edges_carry_file_path_witness:
  "javaParse fooScanner ''/ws/Foo.java'' fooSource False
     = Inr \<lparr> pnodes = [javaClassNode fooClass ''/ws/Foo.java'' (splitLines fooSource),
                        javaMethodNode barMethod ''/ws/Foo.java'' (splitLines fooSource)],
             pedges = [containsEdge ''/ws/Foo.java'' ''Foo'' ''bar''] \<rparr>
   \<and> \<lparr> efrom = ''/ws/Foo.java'', eto = ''/ws/Foo.java'', etype = Contains,
         elabel = Some ''Foo contains bar'' \<rparr>
       \<in> set [containsEdge ''/ws/Foo.java'' ''Foo'' ''bar'']
   \<and> filter (\<lambda>e. etype e = Contains) [containsEdge ''/ws/Foo.java'' ''Foo'' ''bar'']
       = [\<lparr> efrom = ''/ws/Foo.java'', eto = ''/ws/Foo.java'', etype = Contains,
            elabel = Some ''Foo contains bar'' \<rparr>]
   \<and> pythonParse dogScanner ''/ws/dog.py'' dogSource False
     = Inr \<lparr> pnodes = [pythonClassNode dogClass ''/ws/dog.py'' (splitLines dogSource),
                        pythonMethodNode speakMethod ''Dog'' ''/ws/dog.py'' (splitLines dogSource)],
             pedges = [containsEdge ''/ws/dog.py'' ''Dog'' ''speak'',
                       extendsEdge ''/ws/dog.py'' ''Animal''] \<rparr>
   \<and> \<lparr> efrom = ''/ws/dog.py'', eto = ''/ws/dog.py'', etype = Contains,
         elabel = Some ''Dog contains speak'' \<rparr>
       \<in> set [containsEdge ''/ws/dog.py'' ''Dog'' ''speak'', extendsEdge ''/ws/dog.py'' ''Animal'']
   \<and> filter (\<lambda>e. etype e = Contains)
         [containsEdge ''/ws/dog.py'' ''Dog'' ''speak'', extendsEdge ''/ws/dog.py'' ''Animal'']
       = [\<lparr> efrom = ''/ws/dog.py'', eto = ''/ws/dog.py'', etype = Contains,
            elabel = Some ''Dog contains speak'' \<rparr>]"
proof -
  let ?jr = "\<lparr> pnodes = [javaClassNode fooClass ''/ws/Foo.java'' (splitLines fooSource),
                        javaMethodNode barMethod ''/ws/Foo.java'' (splitLines fooSource)],
               pedges = [containsEdge ''/ws/Foo.java'' ''Foo'' ''bar''] \<rparr>"
  let ?pr = "\<lparr> pnodes = [pythonClassNode dogClass ''/ws/dog.py'' (splitLines dogSource),
                        pythonMethodNode speakMethod ''Dog'' ''/ws/dog.py'' (splitLines dogSource)],
               pedges = [containsEdge ''/ws/dog.py'' ''Dog'' ''speak'',
                         extendsEdge ''/ws/dog.py'' ''Animal''] \<rparr>"
  have j: "js_parseClasses fooScanner (splitLines fooSource) = Inr [fooClass]"
    "js_parseMethods fooScanner (splitLines fooSource) (jc_startLine fooClass) (jc_endLine fooClass)
       (jc_name fooClass) = Inr [barMethod]"
    "scannedMethods fooScanner (splitLines fooSource) fooClass = [barMethod]"
    by (simp_all add: fooScanner_def scannedMethods_def)
  have p: "ps_parseClasses dogScanner (splitLines dogSource) = Inr [dogClass]"
    "speakMethod \<in> set (pc_methods dogClass)" "pc_methods dogClass = [speakMethod]"
    by (simp_all add: dogScanner_def dogClass_def)
  have n: "jc_name fooClass = ''Foo''" "jm_name barMethod = ''bar''"
    "pc_name dogClass = ''Dog''" "pm_name speakMethod = ''speak''"
    by (simp_all add: fooClass_def barMethod_def dogClass_def speakMethod_def)
  note tj = contains_edges_carry_file_path
      [where jsc = fooScanner and fsPath = "''/ws/Foo.java''" and content = fooSource
         and isEntry = False and jr = ?jr and jclasses = "[fooClass]" and jcls = fooClass
         and jmethods = "[barMethod]" and jmethod = barMethod]
  note tp = contains_edges_carry_file_path
      [where psc = dogScanner and fsPath = "''/ws/dog.py''" and content = dogSource
         and isEntry = False and pr = ?pr and pclasses = "[dogClass]" and pcls = dogClass
         and pmethod = speakMethod]
  have "javaParse fooScanner ''/ws/Foo.java'' fooSource False = Inr ?jr
        \<and> \<lparr> efrom = ''/ws/Foo.java'', eto = ''/ws/Foo.java'', etype = Contains,
              elabel = Some ''Foo contains bar'' \<rparr> \<in> set (pedges ?jr)"
    using tj [THEN conjunct1] javaParse_foo j n by simp
  moreover
  have "filter (\<lambda>e. etype e = Contains) (pedges ?jr)
          = [\<lparr> efrom = ''/ws/Foo.java'', eto = ''/ws/Foo.java'', etype = Contains,
               elabel = Some ''Foo contains bar'' \<rparr>]"
    using tj [THEN conjunct2, THEN conjunct2, THEN conjunct1] javaParse_foo j n by simp
  moreover
  have "pythonParse dogScanner ''/ws/dog.py'' dogSource False = Inr ?pr
        \<and> \<lparr> efrom = ''/ws/dog.py'', eto = ''/ws/dog.py'', etype = Contains,
              elabel = Some ''Dog contains speak'' \<rparr> \<in> set (pedges ?pr)"
    using tp [THEN conjunct2, THEN conjunct1] pythonParse_dog p n by simp
  moreover
  have "filter (\<lambda>e. etype e = Contains) (pedges ?pr)
          = [\<lparr> efrom = ''/ws/dog.py'', eto = ''/ws/dog.py'', etype = Contains,
               elabel = Some ''Dog contains speak'' \<rparr>]"
    using tp [THEN conjunct2, THEN conjunct2, THEN conjunct2, THEN conjunct1] pythonParse_dog p n
    by simp
  ultimately show ?thesis by simp
qed

text \<open>
  C4 as stated fails on both example files: the only \<open>contains\<close> edge of
  \<open>Foo.java\<close> runs from the file path to the file path, while the entity keys of the
  class and the method are \<open>/ws/Foo.java:class:Foo\<close> and \<open>/ws/Foo.java:method:Foo.bar:1\<close>;
  likewise for \<open>dog.py\<close>.
\<close>

theorem contains_edges_entity_keys_counterexample:
  "map nid (pnodes (projr (javaParse fooScanner ''/ws/Foo.java'' fooSource False)))
     = [''/ws/Foo.java:class:Foo'', ''/ws/Foo.java:method:Foo.bar:1'']
   \<and> pedges (projr (javaParse fooScanner ''/ws/Foo.java'' fooSource False))
     = [\<lparr> efrom = ''/ws/Foo.java'', eto = ''/ws/Foo.java'', etype = Contains,
          elabel = Some ''Foo contains bar'' \<rparr>]
   \<and> map nid (pnodes (projr (pythonParse dogScanner ''/ws/dog.py'' dogSource False)))
     = [''/ws/dog.py:class:Dog'', ''/ws/dog.py:method:Dog.speak:1'']
   \<and> pedges (projr (pythonParse dogScanner ''/ws/dog.py'' dogSource False))
     = [\<lparr> efrom = ''/ws/dog.py'', eto = ''/ws/dog.py'', etype = Contains,
          elabel = Some ''Dog contains speak'' \<rparr>,
        \<lparr> efrom = ''/ws/dog.py'', eto = ''Animal'', etype = Extends,
          elabel = Some ''extends Animal'' \<rparr>]"
  by code_simp

lemma tryCatch_returns: "\<exists>r. tryCatch body = Inr r"
  by (cases body) (simp_all add: tryCatch_def)

lemma tryCatch_failure: "body = Inl error \<Longrightarrow> tryCatch body = Inr \<lparr> pnodes = [], pedges = [] \<rparr>"
  by (simp add: tryCatch_def emptyResult_def)

lemma javaClassesLoop_failure:
  assumes "cls \<in> set classes"
    and "js_parseMethods sc lines (jc_startLine cls) (jc_endLine cls) (jc_name cls) = Inl error"
  shows "\<exists>err. javaClassesLoop sc fsPath lines classes acc = Inl err"
  using assms
proof (induction classes arbitrary: acc)
  case Nil
  then show ?case by simp
next
  case (Cons c rest)
  show ?case
  proof (cases "js_parseMethods sc lines (jc_startLine c) (jc_endLine c) (jc_name c)")
    case (Inl err)
    then show ?thesis by simp
  next
    case (Inr methods)
    with Cons.prems have "cls \<in> set rest" by auto
    from Cons.IH [OF this Cons.prems(2)] Inr show ?thesis by simp
  qed
qed

text \<open>
  C6. On the text of any file (the document has been opened before the \<open>try\<close> block is
  entered), and whatever the scanners and the Babel parser return or throw, \<open>parse\<close> of
  each of the three parsers returns a result and throws nothing. When anything inside
  the \<open>try\<close> block throws (the Babel parser on malformed text, a scanner of the Java or
  Python parser, at its first call or within the loop over the classes) the result has
  no nodes and no edges.
\<close>

theorem parse_never_throws:
  "(\<exists>r. javaParse jsc fsPath content isEntry = Inr r)
   \<and> (\<exists>r. pythonParse psc fsPath content isEntry = Inr r)
   \<and> (\<exists>r. reactParse babelParse fsPath content isEntry = Inr r)
   \<and> (javaParseBody jsc fsPath content isEntry = Inl error
        \<longrightarrow> javaParse jsc fsPath content isEntry = Inr \<lparr> pnodes = [], pedges = [] \<rparr>)
   \<and> (pythonParseBody psc fsPath content isEntry = Inl error
        \<longrightarrow> pythonParse psc fsPath content isEntry = Inr \<lparr> pnodes = [], pedges = [] \<rparr>)
   \<and> (reactParseBody babelParse fsPath content isEntry = Inl error
        \<longrightarrow> reactParse babelParse fsPath content isEntry = Inr \<lparr> pnodes = [], pedges = [] \<rparr>)
   \<and> (babelParse content = Inl error
        \<longrightarrow> reactParse babelParse fsPath content isEntry = Inr \<lparr> pnodes = [], pedges = [] \<rparr>)
   \<and> (js_parseClasses jsc (splitLines content) = Inl error
        \<longrightarrow> javaParse jsc fsPath content isEntry = Inr \<lparr> pnodes = [], pedges = [] \<rparr>)
   \<and> (js_parseClasses jsc (splitLines content) = Inr classes \<and> cls \<in> set classes
        \<and> js_parseMethods jsc (splitLines content) (jc_startLine cls) (jc_endLine cls) (jc_name cls)
             = Inl error
        \<longrightarrow> javaParse jsc fsPath content isEntry = Inr \<lparr> pnodes = [], pedges = [] \<rparr>)
   \<and> (ps_parseClasses psc (splitLines content) = Inl error
        \<longrightarrow> pythonParse psc fsPath content isEntry = Inr \<lparr> pnodes = [], pedges = [] \<rparr>)
   \<and> (ps_parseClasses psc (splitLines content) = Inr pclasses
        \<and> ps_parseStandaloneFunctions psc (splitLines content) pclasses = Inl error
        \<longrightarrow> pythonParse psc fsPath content isEntry = Inr \<lparr> pnodes = [], pedges = [] \<rparr>)"
proof -
  have r: "babelParse content = Inl error \<Longrightarrow> reactParseBody babelParse fsPath content isEntry = Inl error"
    by (simp add: reactParseBody_def)
  have j1: "js_parseClasses jsc (splitLines content) = Inl error \<Longrightarrow>
            javaParseBody jsc fsPath content isEntry = Inl error"
    by (simp add: javaParseBody_def)
  have j2: "\<exists>err. javaParseBody jsc fsPath content isEntry = Inl err"
    if "js_parseClasses jsc (splitLines content) = Inr classes" "cls \<in> set classes"
      "js_parseMethods jsc (splitLines content) (jc_startLine cls) (jc_endLine cls) (jc_name cls)
             = Inl error"
  proof -
    from javaClassesLoop_failure [OF that(2) that(3)]
    obtain err where "javaClassesLoop jsc fsPath (splitLines content) classes emptyResult = Inl err"
      by blast
    with that(1) show ?thesis by (simp add: javaParseBody_def)
  qed
  have p1: "ps_parseClasses psc (splitLines content) = Inl error \<Longrightarrow>
            pythonParseBody psc fsPath content isEntry = Inl error"
    by (simp add: pythonParseBody_def)
  have p2: "ps_parseClasses psc (splitLines content) = Inr pclasses \<Longrightarrow>
            ps_parseStandaloneFunctions psc (splitLines content) pclasses = Inl error \<Longrightarrow>
            pythonParseBody psc fsPath content isEntry = Inl error"
    by (simp add: pythonParseBody_def Let_def)
  show ?thesis
    unfolding javaParse_def pythonParse_def reactParse_def
    using tryCatch_returns tryCatch_failure r j1 j2 p1 p2
    by (intro conjI impI) (blast+)
qed

theorem parse_never_throws_witness:
  "sampleBabel ''const = ;'' = Inl (Thrown ''SyntaxError'')
   \<and> reactParse sampleBabel ''/ws/src/broken.tsx'' ''const = ;'' False = Inr \<lparr> pnodes = [], pedges = [] \<rparr>
   \<and> js_parseClasses failingScanner (splitLines fooSource) = Inr [fooClass]
   \<and> js_parseMethods failingScanner (splitLines fooSource) (jc_startLine fooClass) (jc_endLine fooClass)
        (jc_name fooClass) = Inl (Thrown ''TypeError'')
   \<and> javaParse failingScanner ''/ws/Foo.java'' fooSource False = Inr \<lparr> pnodes = [], pedges = [] \<rparr>
   \<and> ps_parseClasses failingPythonScanner (splitLines dogSource) = Inr [dogClass]
   \<and> ps_parseStandaloneFunctions failingPythonScanner (splitLines dogSource) [dogClass]
        = Inl (Thrown ''TypeError'')
   \<and> pythonParse failingPythonScanner ''/ws/dog.py'' dogSource False = Inr \<lparr> pnodes = [], pedges = [] \<rparr>"
proof -
  have b: "sampleBabel ''const = ;'' = Inl (Thrown ''SyntaxError'')"
    by (simp add: sampleBabel_def arrowSource_def declarationSource_def)
  have j: "js_parseClasses failingScanner (splitLines fooSource) = Inr [fooClass]"
    "js_parseMethods failingScanner (splitLines fooSource) (jc_startLine fooClass) (jc_endLine fooClass)
        (jc_name fooClass) = Inl (Thrown ''TypeError'')"
    by (simp_all add: failingScanner_def fooScanner_def)
  have p: "ps_parseClasses failingPythonScanner (splitLines dogSource) = Inr [dogClass]"
    "ps_parseStandaloneFunctions failingPythonScanner (splitLines dogSource) [dogClass]
        = Inl (Thrown ''TypeError'')"
    by (simp_all add: failingPythonScanner_def dogScanner_def)
  note t = parse_never_throws
    [where babelParse = sampleBabel and content = "''const = ;''" and error = "Thrown ''SyntaxError''"
       and fsPath = "''/ws/src/broken.tsx''" and isEntry = False]
  have 1: "reactParse sampleBabel ''/ws/src/broken.tsx'' ''const = ;'' False
             = Inr \<lparr> pnodes = [], pedges = [] \<rparr>"
    using t [THEN conjunct2, THEN conjunct2, THEN conjunct2, THEN conjunct2, THEN conjunct2,
             THEN conjunct2, THEN conjunct1] b
    by simp
  note u = parse_never_throws
    [where jsc = failingScanner and content = fooSource and error = "Thrown ''TypeError''"
       and fsPath = "''/ws/Foo.java''" and isEntry = False and classes = "[fooClass]" and cls = fooClass]
  have 2: "javaParse failingScanner ''/ws/Foo.java'' fooSource False = Inr \<lparr> pnodes = [], pedges = [] \<rparr>"
    using u [THEN conjunct2, THEN conjunct2, THEN conjunct2, THEN conjunct2, THEN conjunct2,
             THEN conjunct2, THEN conjunct2, THEN conjunct2, THEN conjunct1] j
    by simp
  note v = parse_never_throws
    [where psc = failingPythonScanner and content = dogSource and error = "Thrown ''TypeError''"
       and fsPath = "''/ws/dog.py''" and isEntry = False and pclasses = "[dogClass]"]
  have 3: "pythonParse failingPythonScanner ''/ws/dog.py'' dogSource False = Inr \<lparr> pnodes = [], pedges = [] \<rparr>"
    using v [THEN conjunct2, THEN conjunct2, THEN conjunct2, THEN conjunct2, THEN conjunct2,
             THEN conjunct2, THEN conjunct2, THEN conjunct2, THEN conjunct2, THEN conjunct2] p
    by simp
  from b j p 1 2 3 show ?thesis by simp
qed

section \<open>Properties of the TypeScript and JavaScript parser\<close>

text \<open>
  The visitor of variable declarators pushes component nodes only; the visitor of
  function declarations pushes a function node for a function that returns no JSX.
\<close>

lemma visitVariableDeclarator_components_only:
  "n \<in> set (visitVariableDeclarator fsPath content node) \<Longrightarrow> ntype n = Component"
  by (auto simp: visitVariableDeclarator_def createComponentNode_def Let_def
        split: option.splits if_splits)

lemma visitFunctionDeclaration_plain:
  "\<not> isReactComponent node \<Longrightarrow>
   map ntype (visitFunctionDeclaration fsPath content node) = [Function]"
  by (simp add: visitFunctionDeclaration_def createFunctionNode_def Let_def)

text \<open>
  C9. The arrow function \<open>const add = (a, b) => a + b;\<close> returns no JSX, and the parser
  produces no node for it at all, where the claim asks for a node of kind function. The
  visitor of variable declarators has no branch for a function that is not a component;
  the visitor of function declarations has one, and the declaration
  \<open>function add(a, b) { return a + b; }\<close> yields its function node.
\<close>

theorem reactParse_arrow_function_dropped:
  "reactParse sampleBabel ''/ws/src/math.ts'' arrowSource False = Inr \<lparr> pnodes = [], pedges = [] \<rparr>
   \<and> map ntype (pnodes (projr (reactParse sampleBabel ''/ws/src/math.ts'' declarationSource False)))
       = [Function]
   \<and> map nid (pnodes (projr (reactParse sampleBabel ''/ws/src/math.ts'' declarationSource False)))
       = [''/ws/src/math.ts:function:add:1'']"
  by code_simp

end
